theory Spec2Isabelle
  imports Main "HOL-Library.AList"
begin

section \<open>Python values shared by the whole development\<close>

text \<open>
  The exceptions the modelled code can raise.  \<open>UnsupportedRef\<close>, \<open>ChannelExists\<close> and
  \<open>MessageExists\<close> are the three \<^verbatim>\<open>raise Exception(...)\<close> statements of docs.py (the
  string is the formatted message); the others are the built-in exceptions raised by
  the interpreter, by the typing module or by pydantic.
\<close>

datatype error =
    IndexError
  | KeyError string
  | AttributeError string
  | TypeError
  | NameError string
  | RuntimeError string
  | ValueError string
  | RecursionError
  | UnboundLocalError string
  | ValidationError string
  | UnsupportedRef string
  | ChannelExists string
  | MessageExists string string

subsection \<open>Strings\<close>

text \<open>
  A string is the list of the bytes of its UTF-8 encoding.  The characters the code
  looks for (\<^verbatim>\<open>/\<close>, \<^verbatim>\<open>_\<close>, \<^verbatim>\<open>#\<close>, the prefix \<^verbatim>\<open>on_\<close>) are ASCII and occur in the
  encoding only where they occur in the text, so splitting, removing and
  concatenating act on the bytes as Python acts on the text.  Case mapping is
  different: on a string that is ASCII throughout it is computed here; on any other
  string it is what the Unicode tables of the interpreter say, which is a parameter
  of the model (the fields \<open>unicode_title\<close> and \<open>unicode_lower\<close> of the runtime below).
\<close>

definition lowers :: string where
  "lowers = ''abcdefghijklmnopqrstuvwxyz''"

definition uppers :: string where
  "uppers = ''ABCDEFGHIJKLMNOPQRSTUVWXYZ''"

definition ascii_lower :: "char \<Rightarrow> char" where
  "ascii_lower c = (case map_of (zip uppers lowers) c of Some l \<Rightarrow> l | None \<Rightarrow> c)"

definition ascii_upper :: "char \<Rightarrow> char" where
  "ascii_upper c = (case map_of (zip lowers uppers) c of Some u \<Rightarrow> u | None \<Rightarrow> c)"

definition is_letter :: "char \<Rightarrow> bool" where
  "is_letter c = (c \<in> set lowers \<or> c \<in> set uppers)"

definition is_ascii :: "string \<Rightarrow> bool" where
  "is_ascii s = list_all (\<lambda>c. \<not> digit7 c) s"

text \<open>
  \<^verbatim>\<open>str.title()\<close> on an ASCII string: a letter that follows a letter is lowered, a
  letter that follows anything else (or starts the string) is raised, every other
  character is kept.
\<close>

fun title_from :: "bool \<Rightarrow> string \<Rightarrow> string" where
  "title_from prev [] = []"
| "title_from prev (c # cs) =
     (if is_letter c
      then (if prev then ascii_lower c else ascii_upper c) # title_from True cs
      else c # title_from False cs)"

definition startswith :: "string \<Rightarrow> string \<Rightarrow> bool" where
  "startswith s p = (take (length p) s = p)"

definition endswith :: "string \<Rightarrow> string \<Rightarrow> bool" where
  "endswith s p = (length p \<le> length s \<and> drop (length s - length p) s = p)"

text \<open>\<^verbatim>\<open>s.replace(c, "")\<close> for a one-character \<open>c\<close>.\<close>

definition remove_char :: "char \<Rightarrow> string \<Rightarrow> string" where
  "remove_char c s = filter (\<lambda>x. x \<noteq> c) s"

text \<open>\<^verbatim>\<open>s.split(c)\<close>: never empty; \<^verbatim>\<open>"".split("/") == [""]\<close>.\<close>

fun py_split :: "char \<Rightarrow> string \<Rightarrow> string list" where
  "py_split c [] = [[]]"
| "py_split c (x # xs) =
     (if x = c then [] # py_split c xs
      else (case py_split c xs of
              [] \<Rightarrow> [[x]]
            | w # ws \<Rightarrow> (x # w) # ws))"

text \<open>
  A Python dict is an association list with distinct keys, in insertion order;
  \<^verbatim>\<open>d[k] = v\<close> is \<^const>\<open>AList.update\<close> and \<^verbatim>\<open>d.get(k)\<close> is \<^const>\<open>map_of\<close>.
  \<open>dict_of\<close> builds a dict from the sequence of assignments a loop performs.
\<close>

definition dict_of :: "('k \<times> 'v) list \<Rightarrow> ('k \<times> 'v) list" where
  "dict_of ps = foldl (\<lambda>d (k, v). AList.update k v d) [] ps"

section \<open>Type descriptors and the runtime\<close>

text \<open>
  A type descriptor as \<^verbatim>\<open>rewrite_type\<close> sees it.

  \<^item> \<open>Peewee cid name pk\<close>: a class for which
    \<^verbatim>\<open>peewee and isinstance(tp, type) and issubclass(tp, peewee.Model)\<close> holds; \<open>pk\<close> is
    \<^verbatim>\<open>tp._meta.primary_key.name\<close>, \<open>None\<close> when that expression raises AttributeError
    (as it does for \<^verbatim>\<open>peewee.Model\<close> itself).
  \<^item> \<open>Dataclass cid\<close>: a class for which \<^verbatim>\<open>dataclasses.is_dataclass\<close> holds and the
    peewee test fails.  Its name and its fields are in the \<open>dataclass_table\<close> of the
    runtime, because a field of a dataclass may be annotated with the class itself.
  \<^item> \<open>Generic flavour origin args\<close>: an object whose \<^verbatim>\<open>get_origin\<close> is not None, with
    its \<^verbatim>\<open>get_args\<close>.  The flavour tells an alias of the typing module
    (\<^verbatim>\<open>typing.List[int]\<close>) from an alias of the language (\<^verbatim>\<open>list[int]\<close>): the two have
    the same origin and the same arguments and are not equal.  An unsubscripted
    \<^verbatim>\<open>typing.List\<close> has origin \<^verbatim>\<open>list\<close> and no arguments.  \<^verbatim>\<open>X | Y\<close> has the origin
    \<^verbatim>\<open>types.UnionType\<close>, which is not \<^verbatim>\<open>typing.Union\<close>: it is an \<open>OOther\<close>.
  \<^item> \<open>Model cid name fields\<close>: a pydantic model built by \<^verbatim>\<open>create_model\<close>.
  \<^item> \<open>UUIDRef cid name\<close>: the \<^verbatim>\<open>PeeweeUUIDRef\<close> class built by
    \<^verbatim>\<open>peewee_uuid_ref\<close>.
  \<^item> \<open>BaseModel cid name\<close>: a hand-written subclass of pydantic's \<^verbatim>\<open>BaseModel\<close>.
  \<^item> \<open>Ellipsis\<close>, and \<open>Leaf name\<close> for every other object (\<^verbatim>\<open>str\<close>, \<^verbatim>\<open>bool\<close>,
    \<^verbatim>\<open>NoneType\<close>, \<^verbatim>\<open>Any\<close>, a plain class, a forward reference, ...).

  \<open>cid\<close> is the identity of a class object: two classes with the same name and the
  same fields are still two classes, and the caches are keyed by identity.
\<close>

datatype origin = OList | OSet | ODict | OTuple | OUnion | OOther string

datatype flavour = TypingAlias | GenericAlias

datatype ty =
    Leaf string
  | Ellipsis
  | Peewee nat string "string option"
  | Dataclass nat
  | Generic flavour origin "ty list"
  | Model nat string "(string \<times> ty) list"
  | UUIDRef nat string
  | BaseModel nat string

text \<open>The kinds of object \<^verbatim>\<open>getattr\<close> can be applied to in \<open>resolve_ref\<close>.\<close>

datatype kind = KObject | KDict | KList | KStr | KNone | KMethod

text \<open>
  What the model takes from outside the modelled files:

  \<^item> \<open>unicode_title\<close>, \<open>unicode_lower\<close>: \<^verbatim>\<open>str.title\<close> and \<^verbatim>\<open>str.lower\<close> on strings that
    are not ASCII throughout;
  \<^item> \<open>dataclass_table\<close>: for the identity of a dataclass, its \<^verbatim>\<open>__name__\<close> and either
    the exception \<^verbatim>\<open>get_type_hints(tp)\<close> raises (NameError for a forward reference
    that cannot be resolved) or \<^verbatim>\<open>dataclasses.fields(tp)\<close> in order, each with its
    annotation \<^verbatim>\<open>hints.get(f.name, f.type)\<close>;
  \<^item> \<open>typing_accepts\<close>: the parameter lists with which \<^verbatim>\<open>List[...]\<close>, \<^verbatim>\<open>Set[...]\<close>,
    \<^verbatim>\<open>Dict[...]\<close>, \<^verbatim>\<open>Tuple[...]\<close> and \<^verbatim>\<open>Union[...]\<close> of the typing module return an
    alias; with the others they raise TypeError (\<^verbatim>\<open>List[ClassVar[int]]\<close>);
  \<^item> \<open>shadows\<close>: the field names pydantic refuses with NameError because they shadow
    an attribute of \<^verbatim>\<open>BaseModel\<close>;
  \<^item> \<open>has_validator\<close>: the field types pydantic finds a validator for (for the others
    creating the model raises RuntimeError);
  \<^item> \<open>has_schema\<close>: the pydantic models whose \<^verbatim>\<open>.schema()\<close> returns (for the others it
    raises ValueError);
  \<^item> \<open>recursion_limit\<close>: how many nested activations of \<open>rewrite_type\<close> the
    interpreter allows below a call from the builder;
  \<^item> \<open>builtin_attribute\<close>: the names \<^verbatim>\<open>getattr\<close> finds on an object of a kind besides
    the fields of a model and the public methods of dict, list and str listed
    below (special attributes of every kind, methods of pydantic models).
\<close>

record runtime =
  unicode_title :: "string \<Rightarrow> string"
  unicode_lower :: "string \<Rightarrow> string"
  dataclass_table :: "nat \<Rightarrow> (string \<times> (error + (string \<times> ty) list)) option"
  typing_accepts :: "origin \<Rightarrow> ty list \<Rightarrow> bool"
  shadows :: "string \<Rightarrow> bool"
  has_validator :: "ty \<Rightarrow> bool"
  has_schema :: "ty \<Rightarrow> bool"
  recursion_limit :: nat
  builtin_attribute :: "kind \<Rightarrow> string \<Rightarrow> bool"

definition py_title :: "runtime \<Rightarrow> string \<Rightarrow> string" where
  "py_title rt s = (if is_ascii s then title_from False s else unicode_title rt s)"

definition py_lower :: "runtime \<Rightarrow> string \<Rightarrow> string" where
  "py_lower rt s = (if is_ascii s then map ascii_lower s else unicode_lower rt s)"

section \<open>The type rewriter\<close>

text \<open>
  The module-level state of docs.py: the two caches, and the allocator of class
  identities (\<open>next_id\<close> is the identity the next class statement or
  \<^verbatim>\<open>create_model\<close> call will produce).
\<close>

record rstate =
  ref_cache :: "(ty \<times> ty) list"
  dc_cache :: "(ty \<times> ty) list"
  next_id :: nat

text \<open>
  A call either returns a value or raises; in both cases the module state it has
  reached is kept, because Python does not undo mutations when an exception
  propagates.
\<close>

type_synonym 'a res = "(error + 'a) \<times> rstate"

text \<open>
  \<^verbatim>\<open>create_model(name, **fields)\<close> of pydantic 1.x.  A field whose name starts with an
  underscore (other than \<^verbatim>\<open>__root__\<close>) is ignored.  The other fields are taken in
  order: a name that shadows an attribute of \<^verbatim>\<open>BaseModel\<close> raises NameError, a type
  without validator raises RuntimeError.  When nothing raises a new class exists.
\<close>

definition is_valid_field :: "string \<Rightarrow> bool" where
  "is_valid_field name = (\<not> startswith name ''_'' \<or> name = ''__root__'')"

definition kept_fields :: "(string \<times> ty) list \<Rightarrow> (string \<times> ty) list" where
  "kept_fields flds = filter (\<lambda>(name, tp). is_valid_field name) flds"

fun check_fields :: "runtime \<Rightarrow> (string \<times> ty) list \<Rightarrow> error option" where
  "check_fields rt [] = None"
| "check_fields rt ((name, tp) # flds) =
     (if shadows rt name then Some (NameError name)
      else if \<not> has_validator rt tp then Some (RuntimeError ''no validator found'')
      else check_fields rt flds)"

definition create_model :: "runtime \<Rightarrow> string \<Rightarrow> (string \<times> ty) list \<Rightarrow> rstate \<Rightarrow> ty res" where
  "create_model rt name flds s =
     (case check_fields rt (kept_fields flds) of
        Some e \<Rightarrow> (Inl e, s)
      | None \<Rightarrow> (Inr (Model (next_id s) name (kept_fields flds)),
                 s\<lparr>next_id := Suc (next_id s)\<rparr>))"

text \<open>\<open>peewee_uuid_ref\<close>, lines 52-91.\<close>

definition peewee_uuid_ref :: "ty \<Rightarrow> rstate \<Rightarrow> ty res" where
  "peewee_uuid_ref model_cls s =
     (case map_of (ref_cache s) model_cls of
        Some r \<Rightarrow> (Inr r, s)
      | None \<Rightarrow>
          (case model_cls of
             Peewee cid name pk \<Rightarrow>
               (case pk of
                  None \<Rightarrow> (Inl (AttributeError ''_meta''), s)
                | Some pk_name \<Rightarrow>
                    (Inr (UUIDRef (next_id s) (name @ ''UUIDRef'')),
                     s\<lparr>ref_cache := AList.update model_cls
                                        (UUIDRef (next_id s) (name @ ''UUIDRef'')) (ref_cache s),
                       next_id := Suc (next_id s)\<rparr>))
           | _ \<Rightarrow> (Inr model_cls, s)))"

text \<open>
  \<^verbatim>\<open>Union[args]\<close> of the typing module: a parameter that is not accepted raises
  TypeError; nested unions are flattened, duplicates are dropped (the first
  occurrence stays), a union of one type is that type, and a union of no types
  raises TypeError.
\<close>

fun flatten_union :: "ty list \<Rightarrow> ty list" where
  "flatten_union [] = []"
| "flatten_union (Generic fl OUnion ms # ts) = ms @ flatten_union ts"
| "flatten_union (t # ts) = t # flatten_union ts"

definition py_union :: "runtime \<Rightarrow> ty list \<Rightarrow> error + ty" where
  "py_union rt args =
     (if \<not> typing_accepts rt OUnion args then Inl TypeError
      else (case rev (remdups (rev (flatten_union args))) of
              [] \<Rightarrow> Inl TypeError
            | [t] \<Rightarrow> Inr t
            | ts \<Rightarrow> Inr (Generic TypingAlias OUnion ts)))"

text \<open>
  \<open>rebuild_container\<close>; \<open>Inr None\<close> is the \<^verbatim>\<open>return None\<close> of the last line.
  \<open>subscript\<close> is \<^verbatim>\<open>List[...]\<close>, \<^verbatim>\<open>Set[...]\<close>, \<^verbatim>\<open>Dict[...]\<close> or \<^verbatim>\<open>Tuple[...]\<close> of the typing
  module.
\<close>

definition subscript :: "runtime \<Rightarrow> origin \<Rightarrow> ty list \<Rightarrow> error + ty option" where
  "subscript rt origin params =
     (if typing_accepts rt origin params
      then Inr (Some (Generic TypingAlias origin params))
      else Inl TypeError)"

fun rebuild_container :: "runtime \<Rightarrow> origin \<Rightarrow> ty list \<Rightarrow> error + ty option" where
  "rebuild_container rt OList args =
     (case args of [] \<Rightarrow> Inl IndexError | a # _ \<Rightarrow> subscript rt OList [a])"
| "rebuild_container rt OSet args =
     (case args of [] \<Rightarrow> Inl IndexError | a # _ \<Rightarrow> subscript rt OSet [a])"
| "rebuild_container rt ODict args =
     (case args of
        a # b # _ \<Rightarrow> subscript rt ODict [a, b]
      | _ \<Rightarrow> Inl IndexError)"
| "rebuild_container rt OTuple args =
     (if length args = 2 \<and> args ! 1 = Ellipsis
      then subscript rt OTuple [args ! 0, Ellipsis]
      else subscript rt OTuple args)"
| "rebuild_container rt _ args = Inr None"

text \<open>
  \<open>rewrite_type\<close>, with the generator expression over \<^verbatim>\<open>get_args(tp)\<close> as
  \<open>rewrite_args\<close> and the loop over \<^verbatim>\<open>dataclasses.fields(tp)\<close> as \<open>rewrite_fields\<close> (it
  yields the assignments to \<^verbatim>\<open>dc_fields\<close> in order).  The second argument counts
  the nested activations of \<open>rewrite_type\<close> the interpreter still allows: an
  activation that finds none left raises RecursionError, which is how the
  rewriting of a dataclass that refers to itself ends.  A \<open>Dataclass\<close> identity the
  table does not know is not a dataclass and is returned as it is.  Nothing catches
  an exception here: it ends every activation, and the entries the caches have
  received by then stay.
\<close>

function rewrite_type :: "runtime \<Rightarrow> nat \<Rightarrow> ty \<Rightarrow> rstate \<Rightarrow> ty res"
  and rewrite_args :: "runtime \<Rightarrow> nat \<Rightarrow> ty list \<Rightarrow> rstate \<Rightarrow> (ty list) res"
  and rewrite_fields :: "runtime \<Rightarrow> nat \<Rightarrow> (string \<times> ty) list \<Rightarrow> rstate \<Rightarrow> ((string \<times> ty) list) res"
where
  "rewrite_type rt 0 tp s = (Inl RecursionError, s)"
| "rewrite_type rt (Suc n) (Peewee cid name pk) s = peewee_uuid_ref (Peewee cid name pk) s"
| "rewrite_type rt (Suc n) (Dataclass cid) s =
     (case dataclass_table rt cid of
        None \<Rightarrow> (Inr (Dataclass cid), s)
      | Some (name, hints) \<Rightarrow>
          (case map_of (dc_cache s) (Dataclass cid) of
             Some m \<Rightarrow> (Inr m, s)
           | None \<Rightarrow>
               (case hints of
                  Inl e \<Rightarrow> (Inl e, s)
                | Inr flds \<Rightarrow>
                    (case rewrite_fields rt n flds s of
                       (Inl e, s1) \<Rightarrow> (Inl e, s1)
                     | (Inr assigns, s1) \<Rightarrow>
                         (case create_model rt (name @ ''Schema'') (dict_of assigns) s1 of
                            (Inl e, s2) \<Rightarrow> (Inl e, s2)
                          | (Inr m, s2) \<Rightarrow>
                              (Inr m,
                               s2\<lparr>dc_cache := AList.update (Dataclass cid) m (dc_cache s2)\<rparr>))))))"
| "rewrite_type rt (Suc n) (Generic fl origin targs) s =
     (case rewrite_args rt n targs s of
        (Inl e, s1) \<Rightarrow> (Inl e, s1)
      | (Inr args, s1) \<Rightarrow>
          (if origin = OUnion
           then (case py_union rt args of Inl e \<Rightarrow> (Inl e, s1) | Inr u \<Rightarrow> (Inr u, s1))
           else (case rebuild_container rt origin args of
                   Inl e \<Rightarrow> (Inl e, s1)
                 | Inr (Some rebuilt) \<Rightarrow> (Inr rebuilt, s1)
                 | Inr None \<Rightarrow> (Inr (Generic fl origin targs), s1))))"
| "rewrite_type rt (Suc n) (Leaf v) s = (Inr (Leaf v), s)"
| "rewrite_type rt (Suc n) Ellipsis s = (Inr Ellipsis, s)"
| "rewrite_type rt (Suc n) (Model cid name flds) s = (Inr (Model cid name flds), s)"
| "rewrite_type rt (Suc n) (UUIDRef cid name) s = (Inr (UUIDRef cid name), s)"
| "rewrite_type rt (Suc n) (BaseModel cid name) s = (Inr (BaseModel cid name), s)"
| "rewrite_args rt n [] s = (Inr [], s)"
| "rewrite_args rt n (a # as) s =
     (case rewrite_type rt n a s of
        (Inl e, s1) \<Rightarrow> (Inl e, s1)
      | (Inr r, s1) \<Rightarrow>
          (case rewrite_args rt n as s1 of
             (Inl e, s2) \<Rightarrow> (Inl e, s2)
           | (Inr rs, s2) \<Rightarrow> (Inr (r # rs), s2)))"
| "rewrite_fields rt n [] s = (Inr [], s)"
| "rewrite_fields rt n ((fname, ann) # fs) s =
     (case rewrite_type rt n ann s of
        (Inl e, s1) \<Rightarrow> (Inl e, s1)
      | (Inr r, s1) \<Rightarrow>
          (case rewrite_fields rt n fs s1 of
             (Inl e, s2) \<Rightarrow> (Inl e, s2)
           | (Inr rs, s2) \<Rightarrow> (Inr ((fname, r) # rs), s2)))"
  by pat_completeness auto
termination
  by (relation "inv_image (less_than <*lex*> less_than <*lex*> less_than)
        (\<lambda>x. case x of
                Inl (rt, n, tp, s) \<Rightarrow> (n, 0, 0)
              | Inr (Inl (rt, n, targs, s)) \<Rightarrow> (n, 1, length targs)
              | Inr (Inr (rt, n, fs, s)) \<Rightarrow> (n, 1, length fs))") auto

text \<open>The module state of a fresh interpreter.\<close>

definition empty_caches :: rstate where
  "empty_caches = \<lparr>ref_cache = [], dc_cache = [], next_id = 0\<rparr>"

text \<open>
  \<open>extends s s'\<close>: every entry of the two caches of \<open>s\<close> is still there, unchanged,
  in \<open>s'\<close>.
\<close>

definition extends :: "rstate \<Rightarrow> rstate \<Rightarrow> bool" where
  "extends s s' \<longleftrightarrow>
     map_of (ref_cache s) \<subseteq>\<^sub>m map_of (ref_cache s') \<and>
     map_of (dc_cache s) \<subseteq>\<^sub>m map_of (dc_cache s')"






section \<open>The document model\<close>

text \<open>
  The pydantic models of the document, with the fields the builder reads or writes.
  An \<^verbatim>\<open>Optional\<close> field is an \<open>option\<close>; a \<^verbatim>\<open>Dict[str, ...]\<close> field is an association
  list.  A \<open>reference\<close> is the \<^verbatim>\<open>Reference\<close> model, holding its \<^verbatim>\<open>$ref\<close> string.
\<close>

datatype reference = Reference (ref_str: string)

record tag =
  tag_name :: string
  tag_description :: "string option"

record message =
  msg_name :: string
  msg_title :: string
  msg_summary :: "string option"
  msg_description :: "string option"
  msg_payload :: "reference option"
  msg_tags :: "tag list option"

record operation_reply =
  reply_channel :: reference
  reply_messages :: "reference list"

record operation =
  op_action :: string
  op_channel :: reference
  op_title :: string
  op_summary :: string
  op_messages :: "reference list"
  op_reply :: "operation_reply option"
  op_tags :: "tag list option"

record channel_item =
  ch_address :: string
  ch_title :: string
  ch_summary :: "string option"
  ch_description :: "string option"
  ch_servers :: "reference list option"
  ch_messages :: "(string \<times> message) list option"

text \<open>
  What \<^verbatim>\<open>components.schemas\<close> holds: the baseline \<^verbatim>\<open>NoSpec\<close> node, or
  \<open>SchemaOf path m\<close>, the result of \<^verbatim>\<open>m.schema()\<close> after
  \<^verbatim>\<open>add_ref_prepath(schema, path)\<close>.  Both functions live outside the modelled
  files; the node records what they were applied to.
\<close>

datatype schema = NoSpec | SchemaOf string ty

record info =
  info_title :: string
  info_version :: string
  info_description :: "string option"
  info_tags :: "tag list option"

record server =
  srv_host :: string
  srv_protocol :: string

record components =
  comp_messages :: "(string \<times> message) list option"
  comp_schemas :: "(string \<times> schema) list"

record doc =
  asyncapi :: string
  doc_info :: info
  servers :: "(string \<times> server) list"
  channels :: "(string \<times> channel_item) list"
  operations :: "(string \<times> operation) list"
  doc_components :: components

text \<open>
  A builder call either returns or raises, and in both cases leaves the state it
  works on (the document, for \<open>add_event\<close> the document and the module state) as
  it has made it: Python does not undo mutations when an exception propagates.
\<close>

datatype 's outcome = Returns 's | Raises error 's

fun after :: "'s outcome \<Rightarrow> 's" where
  "after (Returns s) = s"
| "after (Raises e s) = s"

subsection \<open>Bootstrap\<close>

definition add_description :: string where
  "add_description =
     [CHR 0x0A] @
     ''<br/> AsyncAPI currently does not support Socket.IO binding and Web Socket like syntax used for now.'' @
     [CHR 0x0A] @
     ''In order to add support for Socket.IO ACK value, AsyncAPI is extended with with x-ack keyword.'' @
     [CHR 0x0A] @
     ''This documentation should **NOT** be used for generating code due to these limitations.'' @
     [CHR 0x0A]"

definition default_init ::
  "string \<Rightarrow> string \<Rightarrow> string \<Rightarrow> string \<Rightarrow> string \<Rightarrow> string \<Rightarrow> doc" where
  "default_init version title description server_url server_name server_protocol =
     \<lparr>asyncapi = ''3.0.0'',
      doc_info = \<lparr>info_title = title, info_version = version,
                  info_description = Some (description @ add_description),
                  info_tags = Some []\<rparr>,
      servers = [(server_name, \<lparr>srv_host = server_url, srv_protocol = server_protocol\<rparr>)],
      channels = [],
      operations = [],
      doc_components = \<lparr>comp_messages = Some [],
                        comp_schemas = [(''NoSpec'', NoSpec)]\<rparr>\<rparr>"

text \<open>\<^verbatim>\<open>AsyncAPIDoc.default_init()\<close> with the default arguments.\<close>

definition demo_doc :: doc where
  "demo_doc = default_init ''1.0.0'' ''Demo Chat API'' ''Demo Chat API''
                ''http://localhost:5000'' ''BACKEND'' ''socketio''"

subsection \<open>Small builder operations\<close>

definition make_ref :: "string \<Rightarrow> reference" where
  "make_ref path = Reference (''#'' @ path)"

definition sanitize_id :: "string \<Rightarrow> string" where
  "sanitize_id ident = remove_char CHR ''/'' ident"

text \<open>Python truth value of an \<^verbatim>\<open>Optional[str]\<close> and of an \<^verbatim>\<open>Optional[List]\<close>.\<close>

definition truthy :: "'a list option \<Rightarrow> bool" where
  "truthy x = (case x of None \<Rightarrow> False | Some v \<Rightarrow> v \<noteq> [])"

text \<open>
  \<open>add_global_tag\<close>.  The loop assigns the description of the first tag with the
  name and returns; \<open>set_first\<close> is that loop, \<open>None\<close> when it runs to its end.
  Iterating \<^verbatim>\<open>self.info.tags\<close> when it is \<^verbatim>\<open>None\<close> raises TypeError.
\<close>

fun set_first :: "string \<Rightarrow> string option \<Rightarrow> tag list \<Rightarrow> tag list option" where
  "set_first name description [] = None"
| "set_first name description (t # ts) =
     (if tag_name t = name then Some (t\<lparr>tag_description := description\<rparr> # ts)
      else map_option ((#) t) (set_first name description ts))"

definition add_global_tag :: "string \<Rightarrow> string option \<Rightarrow> doc \<Rightarrow> doc outcome" where
  "add_global_tag name description d =
     (case info_tags (doc_info d) of
        None \<Rightarrow> Raises TypeError d
      | Some ts \<Rightarrow>
          (case set_first name description ts of
             Some ts' \<Rightarrow> Returns (d\<lparr>doc_info := (doc_info d)\<lparr>info_tags := Some ts'\<rparr>\<rparr>)
           | None \<Rightarrow>
               Returns (d\<lparr>doc_info := (doc_info d)\<lparr>info_tags :=
                      Some (ts @ [\<lparr>tag_name = name, tag_description = description\<rparr>])\<rparr>\<rparr>)))"

text \<open>\<open>add_channel\<close>; after the runtime, the arguments in the order of the signature.\<close>

definition add_channel ::
  "runtime \<Rightarrow> string \<Rightarrow> string option \<Rightarrow> string option \<Rightarrow> string option \<Rightarrow> string option \<Rightarrow>
   string list option \<Rightarrow> doc \<Rightarrow> doc outcome" where
  "add_channel rt ident address title summary description srvs d =
     (let address' = (case address of None \<Rightarrow> ident | Some a \<Rightarrow> if a = [] then ident else a);
          ident' = sanitize_id ident
      in case map_of (channels d) ident' of
           None \<Rightarrow>
             Returns (d\<lparr>channels := AList.update ident'
                    \<lparr>ch_address = address',
                     ch_title = (case title of None \<Rightarrow> py_title rt ident'
                                 | Some t \<Rightarrow> if t = [] then py_title rt ident' else t),
                     ch_summary = summary,
                     ch_description = description,
                     ch_servers = (case srvs of None \<Rightarrow> None
                                   | Some ss \<Rightarrow> if ss = [] then None
                                       else Some (map (\<lambda>s. make_ref (''/servers/'' @ s)) ss)),
                     ch_messages = None\<rparr>
                    (channels d)\<rparr>)
         | Some channel \<Rightarrow> Raises (ChannelExists ident') d)"

fun returned :: "'s outcome \<Rightarrow> bool" where
  "returned (Returns s) = True"
| "returned (Raises e s) = False"

section \<open>add_event\<close>

text \<open>
  The arguments of \<open>add_event\<close>.  A model argument is a class or the literal
  \<^verbatim>\<open>"NotProvided"\<close>.  A handler is what the code reads of it: \<^verbatim>\<open>__name__\<close>,
  \<^verbatim>\<open>__doc__\<close> and the dict \<^verbatim>\<open>get_type_hints(handler)\<close>, which lists the annotated
  parameters in order and then, when the return type is annotated, the key
  \<^verbatim>\<open>return\<close>; an annotation \<^verbatim>\<open>None\<close> is reported as \<^verbatim>\<open>NoneType\<close>.
\<close>

datatype model_arg = NotProvided | ModelClass ty

record handler =
  h_name :: string
  h_doc :: "string option"
  h_hints :: "(string \<times> ty) list"

record event_args =
  ev_channel :: string
  ev_id :: string
  ev_handler :: "handler option"
  ev_title :: "string option"
  ev_name :: "string option"
  ev_summary :: "string option"
  ev_description :: "string option"
  ev_tags :: "string list option"
  ev_ack_data_model :: "model_arg option"
  ev_payload_model :: "model_arg option"
  ev_action :: string

definition none_type :: ty where
  "none_type = Leaf ''NoneType''"

text \<open>\<^verbatim>\<open>cls.__name__\<close>; \<open>None\<close> where the object has no such attribute.\<close>

fun class_name :: "runtime \<Rightarrow> ty \<Rightarrow> string option" where
  "class_name rt (Leaf n) = Some n"
| "class_name rt (Peewee cid n pk) = Some n"
| "class_name rt (Dataclass cid) = map_option fst (dataclass_table rt cid)"
| "class_name rt (Model cid n flds) = Some n"
| "class_name rt (UUIDRef cid n) = Some n"
| "class_name rt (BaseModel cid n) = Some n"
| "class_name rt Ellipsis = None"
| "class_name rt (Generic fl origin targs) = None"

text \<open>The classes that have the method \<^verbatim>\<open>schema\<close>: pydantic models.\<close>

fun is_pydantic :: "ty \<Rightarrow> bool" where
  "is_pydantic (Model cid n flds) = True"
| "is_pydantic (BaseModel cid n) = True"
| "is_pydantic _ = False"

text \<open>
  Lines 263-264: the leading \<^verbatim>\<open>on_\<close> is cut once, whatever its case.  Only ASCII
  characters have \<^verbatim>\<open>o\<close>, \<^verbatim>\<open>n\<close> or \<^verbatim>\<open>_\<close> as their lower case, so the three characters
  cut are three bytes.
\<close>

definition normalize_id :: "runtime \<Rightarrow> string \<Rightarrow> string" where
  "normalize_id rt ident = (if startswith (py_lower rt ident) ''on_'' then drop 3 ident else ident)"

text \<open>Lines 282-285: the loop over \<^verbatim>\<open>param_names\<close>; it yields the assignments to \<^verbatim>\<open>fields\<close>.\<close>

fun rewrite_params ::
  "runtime \<Rightarrow> (string \<times> ty) list \<Rightarrow> string list \<Rightarrow> rstate \<Rightarrow> ((string \<times> ty) list) res" where
  "rewrite_params rt type_hints [] s = (Inr [], s)"
| "rewrite_params rt type_hints (param_name # ps) s =
     (case map_of type_hints param_name of
        None \<Rightarrow> (Inl (KeyError param_name), s)
      | Some param_type \<Rightarrow>
          (case rewrite_type rt (recursion_limit rt) param_type s of
             (Inl e, s1) \<Rightarrow> (Inl e, s1)
           | (Inr field_type, s1) \<Rightarrow>
               (case rewrite_params rt type_hints ps s1 of
                  (Inl e, s2) \<Rightarrow> (Inl e, s2)
                | (Inr rs, s2) \<Rightarrow> (Inr ((param_name, field_type) # rs), s2))))"

text \<open>
  The local variables the handler block (lines 275-301) leaves behind.
  \<open>in_ack_title = None\<close> means that \<^verbatim>\<open>ack_title\<close> was never assigned.
\<close>

record introspection =
  in_name :: "string option"
  in_description :: "string option"
  in_payload_model :: "model_arg option"
  in_ack_data_model :: "model_arg option"
  in_ack_title :: "string option"

definition payload_prefix :: "runtime \<Rightarrow> string \<Rightarrow> string" where
  "payload_prefix rt ident = remove_char CHR ''_'' (py_title rt ident)"

text \<open>
  Lines 279-291: the payload model and the module state after them.  An exception
  of \<open>rewrite_type\<close> on a parameter propagates; an exception of \<^verbatim>\<open>create_model\<close> is
  caught and printed, and the payload model stays as it was passed.
\<close>

definition payload_block ::
  "runtime \<Rightarrow> event_args \<Rightarrow> string \<Rightarrow> handler \<Rightarrow> rstate \<Rightarrow> (model_arg option) res" where
  "payload_block rt a ident h s =
     (let type_hints = h_hints h;
          param_names = butlast (map fst type_hints)
      in case rewrite_params rt type_hints param_names s of
           (Inl e, s1) \<Rightarrow> (Inl e, s1)
         | (Inr assigns, s1) \<Rightarrow>
             (case ev_payload_model a of
                Some pm \<Rightarrow> (Inr (Some pm), s1)
              | None \<Rightarrow>
                  (case create_model rt (payload_prefix rt ident @ ''Payload'') (dict_of assigns) s1 of
                     (Inl e, s2) \<Rightarrow> (Inr None, s2)
                   | (Inr m, s2) \<Rightarrow> (Inr (Some (ModelClass m)), s2))))"

definition ack_fields :: "ty \<Rightarrow> (string \<times> ty) list" where
  "ack_fields return_type =
     [(''success'', Leaf ''bool''),
      (''error'', Generic TypingAlias OUnion [Leaf ''Any'', none_type]),
      (''data'', return_type)]"

text \<open>
  Lines 293-301.  An exception of \<open>rewrite_type\<close> or of \<^verbatim>\<open>create_model\<close> is caught
  and printed: the ack model stays absent, \<^verbatim>\<open>ack_title\<close> stays assigned, the module
  state stays as the failed call left it.
\<close>

definition synth_ack ::
  "runtime \<Rightarrow> string \<Rightarrow> (string \<times> ty) list \<Rightarrow> model_arg option \<Rightarrow> rstate \<Rightarrow>
   model_arg option \<times> string option \<times> rstate" where
  "synth_ack rt prefix type_hints ack_data_model s =
     (case map_of type_hints ''return'' of
        None \<Rightarrow> (ack_data_model, None, s)
      | Some return_type \<Rightarrow>
          (case ack_data_model of
             Some am \<Rightarrow> (ack_data_model, None, s)
           | None \<Rightarrow>
               (if return_type \<noteq> none_type
                then (case rewrite_type rt (recursion_limit rt) return_type s of
                        (Inl e, s1) \<Rightarrow> (None, Some (prefix @ ''Ack''), s1)
                      | (Inr r, s1) \<Rightarrow>
                          (case create_model rt (prefix @ ''Ack'') (ack_fields r) s1 of
                             (Inl e, s2) \<Rightarrow> (None, Some (prefix @ ''Ack''), s2)
                           | (Inr m, s2) \<Rightarrow>
                               (Some (ModelClass m), Some (prefix @ ''Ack''), s2)))
                else (None, None, s))))"

text \<open>
  \<open>ack_block_completes\<close>: the two calls of lines 298-299 return, from the module
  state \<open>s\<close>, for the return annotation of the handler.
\<close>

definition ack_block_completes ::
  "runtime \<Rightarrow> string \<Rightarrow> (string \<times> ty) list \<Rightarrow> rstate \<Rightarrow> bool" where
  "ack_block_completes rt prefix type_hints s =
     (case map_of type_hints ''return'' of
        None \<Rightarrow> False
      | Some return_type \<Rightarrow>
          (case rewrite_type rt (recursion_limit rt) return_type s of
             (Inl e, s1) \<Rightarrow> False
           | (Inr r, s1) \<Rightarrow>
               (case create_model rt (prefix @ ''Ack'') (ack_fields r) s1 of
                  (Inl e, s2) \<Rightarrow> False
                | (Inr m, s2) \<Rightarrow> True)))"

text \<open>Lines 275-301, for a handler \<open>h\<close>; \<open>ident\<close> is the normalized id.\<close>

definition inspect_handler ::
  "runtime \<Rightarrow> event_args \<Rightarrow> string \<Rightarrow> handler \<Rightarrow> rstate \<Rightarrow> introspection res" where
  "inspect_handler rt a ident h s =
     (let name = (if truthy (ev_name a) then ev_name a else Some (h_name h));
          description = (if truthy (ev_description a) then ev_description a else h_doc h)
      in case payload_block rt a ident h s of
           (Inl e, s2) \<Rightarrow> (Inl e, s2)
         | (Inr payload_model, s2) \<Rightarrow>
             (case synth_ack rt (payload_prefix rt ident) (h_hints h) (ev_ack_data_model a) s2 of
                (ack_data_model, ack_title, s3) \<Rightarrow>
                  (Inr \<lparr>in_name = name, in_description = description,
                        in_payload_model = payload_model,
                        in_ack_data_model = ack_data_model,
                        in_ack_title = ack_title\<rparr>, s3)))"

text \<open>
  Lines 305-310 and 312-316: the name of the model, the pointer to its schema and
  the write to \<^verbatim>\<open>components.schemas\<close>.  \<^verbatim>\<open>"NotProvided".__name__\<close> raises
  AttributeError, and so does \<^verbatim>\<open>.schema()\<close> on a class that is not a pydantic
  model; \<^verbatim>\<open>.schema()\<close> of a pydantic model raises ValueError when a field has no
  JSON schema.
\<close>

definition register_model :: "runtime \<Rightarrow> model_arg \<Rightarrow> doc \<Rightarrow> error + (reference \<times> doc)" where
  "register_model rt model d =
     (case model of
        NotProvided \<Rightarrow> Inl (AttributeError ''__name__'')
      | ModelClass m \<Rightarrow>
          (case class_name rt m of
             None \<Rightarrow> Inl (AttributeError ''__name__'')
           | Some schema_name \<Rightarrow>
               if \<not> is_pydantic m then Inl (AttributeError ''schema'')
               else if \<not> has_schema rt m then Inl (ValueError ''schema'')
               else Inr (Reference (''#/components/schemas/'' @ schema_name),
                         d\<lparr>doc_components := (doc_components d)\<lparr>comp_schemas :=
                              AList.update schema_name
                                (SchemaOf (''/components/schemas/'' @ schema_name) m)
                                (comp_schemas (doc_components d))\<rparr>\<rparr>)))"

text \<open>\<^verbatim>\<open>[{"name": t} for t in tags]\<close>, under \<^verbatim>\<open>if tags\<close>.\<close>

definition tag_objs :: "string list option \<Rightarrow> tag list option" where
  "tag_objs tags =
     (case tags of
        None \<Rightarrow> None
      | Some ts \<Rightarrow>
          if ts = [] then None
          else Some (map (\<lambda>t. \<lparr>tag_name = t, tag_description = None\<rparr>) ts))"

text \<open>\<^verbatim>\<open>channel_obj.messages\<close> of the channel stored under a key, and the assignment
  \<^verbatim>\<open>channel_obj.messages[key] = m\<close>.\<close>

definition messages_of :: "doc \<Rightarrow> string \<Rightarrow> (string \<times> message) list" where
  "messages_of d channel =
     (case map_of (channels d) channel of
        None \<Rightarrow> []
      | Some c \<Rightarrow> (case ch_messages c of None \<Rightarrow> [] | Some ms \<Rightarrow> ms))"

definition set_messages :: "string \<Rightarrow> (string \<times> message) list \<Rightarrow> doc \<Rightarrow> doc" where
  "set_messages channel ms d =
     d\<lparr>channels := AList.map_entry channel (\<lambda>c. c\<lparr>ch_messages := Some ms\<rparr>) (channels d)\<rparr>"

definition put_message :: "string \<Rightarrow> string \<Rightarrow> message \<Rightarrow> doc \<Rightarrow> doc" where
  "put_message channel key m d = set_messages channel (AList.update key m (messages_of d channel)) d"

text \<open>Lines 305-310: the payload pointer, and the document with the payload schema.\<close>

definition payload_stage :: "runtime \<Rightarrow> introspection \<Rightarrow> doc \<Rightarrow> error + (reference option \<times> doc)" where
  "payload_stage rt i d =
     (case in_payload_model i of
        None \<Rightarrow> Inr (None, d)
      | Some pm \<Rightarrow>
          (case register_model rt pm d of
             Inl e \<Rightarrow> Inl e
           | Inr (payload, d') \<Rightarrow> Inr (Some payload, d')))"

text \<open>
  Lines 311-332: the reply, and the document with the ack schema and the ack
  message.  Reading \<^verbatim>\<open>ack_title\<close> when it was never assigned raises
  UnboundLocalError, after the ack schema has been written.
\<close>

definition ack_stage ::
  "runtime \<Rightarrow> event_args \<Rightarrow> string \<Rightarrow> string \<Rightarrow> string \<Rightarrow> reference option \<Rightarrow> introspection \<Rightarrow> doc \<Rightarrow>
   (operation_reply option \<times> doc) outcome" where
  "ack_stage rt a channel ident name payload i d =
     (case in_ack_data_model i of
        None \<Rightarrow> Returns (None, d)
      | Some am \<Rightarrow>
          (case register_model rt am d of
             Inl e \<Rightarrow> Raises e (None, d)
           | Inr (ack, d3) \<Rightarrow>
               (case in_ack_title i of
                  None \<Rightarrow> Raises (UnboundLocalError ''ack_title'') (None, d3)
                | Some ack_title \<Rightarrow>
                    (let ack_id = ident @ ''Ack'';
                         d4 = put_message channel ack_id
                                \<lparr>msg_name = name @ ''_ack'',
                                 msg_title = ack_title,
                                 msg_summary = None,
                                 msg_description = None,
                                 msg_payload = (case payload of None \<Rightarrow> None | Some p \<Rightarrow> Some ack),
                                 msg_tags = tag_objs (ev_tags a)\<rparr> d3;
                         ack_msg_ref = make_ref (''/channels/'' @ channel @ ''/messages/'' @ ack_id)
                     in Returns (Some \<lparr>reply_channel = make_ref (''/channels/'' @ channel),
                                       reply_messages = [ack_msg_ref]\<rparr>, d4)))))"

text \<open>
  Lines 334-359: the primary message and the operation.  \<^verbatim>\<open>Operation.parse_obj\<close>
  accepts the actions \<^verbatim>\<open>send\<close> and \<^verbatim>\<open>receive\<close> only.
\<close>

definition operation_stage ::
  "event_args \<Rightarrow> string \<Rightarrow> string \<Rightarrow> string \<Rightarrow> string \<Rightarrow> reference option \<Rightarrow>
   string option \<Rightarrow> operation_reply option \<Rightarrow> doc \<Rightarrow> doc outcome" where
  "operation_stage a channel ident name title payload description reply d =
     (let d5 = put_message channel ident
                 \<lparr>msg_name = name, msg_title = title,
                  msg_summary = ev_summary a,
                  msg_description = description,
                  msg_payload = payload,
                  msg_tags = tag_objs (ev_tags a)\<rparr> d;
          msg_ref = make_ref (''/channels/'' @ channel @ ''/messages/'' @ ident)
      in if ev_action a \<noteq> ''send'' \<and> ev_action a \<noteq> ''receive''
         then Raises (ValidationError ''action'') d5
         else Returns
                (d5\<lparr>operations := AList.update (channel @ ''/'' @ ident)
                     \<lparr>op_action = ev_action a,
                      op_channel = make_ref (''/channels/'' @ channel),
                      op_title = title,
                      op_summary = ident,
                      op_messages = [msg_ref],
                      op_reply = reply,
                      op_tags = tag_objs (ev_tags a)\<rparr>
                     (operations d5)\<rparr>))"

text \<open>Lines 303-359, from the locals the handler block left.\<close>

definition finish_event ::
  "runtime \<Rightarrow> event_args \<Rightarrow> string \<Rightarrow> string \<Rightarrow> introspection \<Rightarrow> doc \<Rightarrow> rstate \<Rightarrow>
   (doc \<times> rstate) outcome" where
  "finish_event rt a channel ident i d s =
     (let name = (case in_name i of None \<Rightarrow> ident | Some n \<Rightarrow> if n = [] then ident else n);
          title = (case ev_title a of None \<Rightarrow> name | Some t \<Rightarrow> if t = [] then name else t)
      in case payload_stage rt i d of
           Inl e \<Rightarrow> Raises e (d, s)
         | Inr (payload, d2) \<Rightarrow>
             (case ack_stage rt a channel ident name payload i d2 of
                Raises e (reply, d4) \<Rightarrow> Raises e (d4, s)
              | Returns (reply, d4) \<Rightarrow>
                  (case operation_stage a channel ident name title payload
                          (in_description i) reply d4 of
                     Raises e d5 \<Rightarrow> Raises e (d5, s)
                   | Returns d6 \<Rightarrow> Returns (d6, s))))"

text \<open>
  Lines 272-301: the handler block when a handler is given; without one the
  arguments stay as they were passed and \<^verbatim>\<open>ack_title\<close> is not assigned.
\<close>

definition introspect :: "runtime \<Rightarrow> event_args \<Rightarrow> string \<Rightarrow> rstate \<Rightarrow> introspection res" where
  "introspect rt a ident s =
     (case ev_handler a of
        None \<Rightarrow>
          (Inr \<lparr>in_name = ev_name a,
                in_description = ev_description a,
                in_payload_model = ev_payload_model a,
                in_ack_data_model = ev_ack_data_model a,
                in_ack_title = None\<rparr>, s)
      | Some h \<Rightarrow> inspect_handler rt a ident h s)"

text \<open>
  \<open>add_event\<close>.  \<^verbatim>\<open>self.resolve_ref(self.channels[channel])\<close> is handed the channel
  itself, which has no attribute \<^verbatim>\<open>ref\<close>, and returns it.
\<close>

definition add_event :: "runtime \<Rightarrow> event_args \<Rightarrow> doc \<times> rstate \<Rightarrow> (doc \<times> rstate) outcome" where
  "add_event rt a ds =
     (case ds of (d, s) \<Rightarrow>
        (let ident = normalize_id rt (ev_id a);
             channel = sanitize_id (ev_channel a)
         in case map_of (channels d) channel of
              None \<Rightarrow> Raises (KeyError channel) (d, s)
            | Some channel_obj \<Rightarrow>
                (let d1 = (if \<not> truthy (ch_messages channel_obj)
                           then set_messages channel [] d else d)
                 in if ident \<in> fst ` set (messages_of d1 channel)
                    then Raises (MessageExists ident channel) (d1, s)
                    else (case introspect rt a ident s of
                            (Inl e, s1) \<Rightarrow> Raises e (d1, s1)
                          | (Inr i, s1) \<Rightarrow> finish_event rt a channel ident i d1 s1))))"

text \<open>\<open>schema_model\<close>: the model argument is a pydantic model whose \<^verbatim>\<open>.schema()\<close> returns.\<close>

fun schema_model :: "runtime \<Rightarrow> model_arg \<Rightarrow> bool" where
  "schema_model rt NotProvided = False"
| "schema_model rt (ModelClass m) = (is_pydantic m \<and> has_schema rt m)"

section \<open>Reference resolution\<close>

text \<open>
  \<open>resolve_ref\<close> walks the live objects with \<^verbatim>\<open>getattr\<close>, so it is modelled on the
  object graph itself: \<open>ObjN\<close> is a pydantic model with its attributes (declared
  fields and extras), \<open>DictN\<close> a dict with its keys, \<open>ListN\<close> a list, \<open>StrN\<close> a
  string, \<open>NoneN\<close> the value \<^verbatim>\<open>None\<close>, \<open>SchemaN\<close> a JSON-schema dict written by
  pydantic, whose keys are not modelled, and \<open>BuiltinN name\<close> what \<^verbatim>\<open>getattr\<close>
  returns for the name of a method or of a special attribute: an object that is no
  node of the document.
\<close>

datatype node =
    ObjN "(string \<times> node) list"
  | DictN "(string \<times> node) list"
  | ListN "node list"
  | StrN string
  | NoneN
  | SchemaN schema
  | BuiltinN string

fun kind_of :: "node \<Rightarrow> kind" where
  "kind_of (ObjN attrs) = KObject"
| "kind_of (DictN kvs) = KDict"
| "kind_of (ListN xs) = KList"
| "kind_of (StrN s) = KStr"
| "kind_of NoneN = KNone"
| "kind_of (SchemaN sch) = KDict"
| "kind_of (BuiltinN name) = KMethod"

text \<open>The public methods of dict, list and str (CPython 3.9 and later).\<close>

fun public_methods :: "kind \<Rightarrow> string list" where
  "public_methods KDict =
     [''clear'', ''copy'', ''fromkeys'', ''get'', ''items'', ''keys'', ''pop'', ''popitem'',
      ''setdefault'', ''update'', ''values'']"
| "public_methods KList =
     [''append'', ''clear'', ''copy'', ''count'', ''extend'', ''index'', ''insert'', ''pop'',
      ''remove'', ''reverse'', ''sort'']"
| "public_methods KStr =
     [''capitalize'', ''casefold'', ''center'', ''count'', ''encode'', ''endswith'',
      ''expandtabs'', ''find'', ''format'', ''format_map'', ''index'', ''isalnum'', ''isalpha'',
      ''isascii'', ''isdecimal'', ''isdigit'', ''isidentifier'', ''islower'', ''isnumeric'',
      ''isprintable'', ''isspace'', ''istitle'', ''isupper'', ''join'', ''ljust'', ''lower'',
      ''lstrip'', ''maketrans'', ''partition'', ''removeprefix'', ''removesuffix'', ''replace'',
      ''rfind'', ''rindex'', ''rjust'', ''rpartition'', ''rsplit'', ''rstrip'', ''split'',
      ''splitlines'', ''startswith'', ''strip'', ''swapcase'', ''title'', ''translate'', ''upper'',
      ''zfill'']"
| "public_methods k = []"

definition is_special :: "string \<Rightarrow> bool" where
  "is_special p = (startswith p ''__'' \<and> endswith p ''__'')"

text \<open>
  \<^verbatim>\<open>getattr(current, p)\<close>.  On a model the fields come first, then whatever else the
  class provides.  On a dict, a list or a string the name must be a method or a
  special attribute: a dict does not expose its keys as attributes.
\<close>

fun py_getattr :: "runtime \<Rightarrow> node \<Rightarrow> string \<Rightarrow> error + node" where
  "py_getattr rt (ObjN attrs) p =
     (case map_of attrs p of
        Some v \<Rightarrow> Inr v
      | None \<Rightarrow> if builtin_attribute rt KObject p then Inr (BuiltinN p)
                else Inl (AttributeError p))"
| "py_getattr rt n p =
     (if p \<in> set (public_methods (kind_of n)) \<or>
         (is_special p \<and> builtin_attribute rt (kind_of n) p)
      then Inr (BuiltinN p)
      else Inl (AttributeError p))"

text \<open>The truth value of an object: models are true, containers and strings are
  true when not empty.\<close>

fun py_bool :: "node \<Rightarrow> bool" where
  "py_bool (ObjN attrs) = True"
| "py_bool (DictN kvs) = (kvs \<noteq> [])"
| "py_bool (ListN xs) = (xs \<noteq> [])"
| "py_bool (StrN s) = (s \<noteq> [])"
| "py_bool NoneN = False"
| "py_bool (SchemaN sch) = True"
| "py_bool (BuiltinN name) = True"

text \<open>Lines 200-203: the loop over the segments.\<close>

fun walk :: "runtime \<Rightarrow> node \<Rightarrow> string list \<Rightarrow> error + node" where
  "walk rt current [] = Inr current"
| "walk rt current (p # ps) =
     (case py_getattr rt current p of
        Inl e \<Rightarrow> Inl e
      | Inr next \<Rightarrow> walk rt next ps)"

text \<open>\<open>resolve_ref rt self obj\<close>, lines 189-203.\<close>

definition resolve_ref :: "runtime \<Rightarrow> node \<Rightarrow> node \<Rightarrow> error + node" where
  "resolve_ref rt self obj =
     (let ref = (if py_bool obj \<and>
                    (case py_getattr rt obj ''ref'' of Inl e \<Rightarrow> False | Inr v \<Rightarrow> True)
                 then (case py_getattr rt obj ''ref'' of Inl e \<Rightarrow> NoneN | Inr v \<Rightarrow> v)
                 else (case obj of StrN s \<Rightarrow> StrN s | _ \<Rightarrow> NoneN))
      in case ref of
           NoneN \<Rightarrow> Inr obj
         | StrN r \<Rightarrow>
             if \<not> startswith r ''#/'' then Inl (UnsupportedRef r)
             else walk rt self (py_split CHR ''/'' (drop 2 r))
         | _ \<Rightarrow> Inl (AttributeError ''startswith''))"

subsection \<open>The object graph of a document\<close>

definition opt_node :: "('a \<Rightarrow> node) \<Rightarrow> 'a option \<Rightarrow> node" where
  "opt_node f x = (case x of None \<Rightarrow> NoneN | Some v \<Rightarrow> f v)"

definition dict_node :: "('a \<Rightarrow> node) \<Rightarrow> (string \<times> 'a) list \<Rightarrow> node" where
  "dict_node f kvs = DictN (map (\<lambda>(k, v). (k, f v)) kvs)"

definition list_node :: "('a \<Rightarrow> node) \<Rightarrow> 'a list \<Rightarrow> node" where
  "list_node f xs = ListN (map f xs)"

definition ref_node :: "reference \<Rightarrow> node" where
  "ref_node r = ObjN [(''ref'', StrN (ref_str r))]"

definition tag_node :: "tag \<Rightarrow> node" where
  "tag_node t = ObjN [(''name'', StrN (tag_name t)),
                      (''description'', opt_node StrN (tag_description t))]"

definition message_node :: "message \<Rightarrow> node" where
  "message_node m =
     ObjN [(''name'', StrN (msg_name m)),
           (''title'', StrN (msg_title m)),
           (''summary'', opt_node StrN (msg_summary m)),
           (''description'', opt_node StrN (msg_description m)),
           (''payload'', opt_node ref_node (msg_payload m)),
           (''tags'', opt_node (list_node tag_node) (msg_tags m))]"

definition reply_node :: "operation_reply \<Rightarrow> node" where
  "reply_node r =
     ObjN [(''address'', NoneN),
           (''channel'', ref_node (reply_channel r)),
           (''messages'', list_node ref_node (reply_messages r))]"

definition operation_node :: "operation \<Rightarrow> node" where
  "operation_node p =
     ObjN [(''action'', StrN (op_action p)),
           (''channel'', ref_node (op_channel p)),
           (''title'', StrN (op_title p)),
           (''summary'', StrN (op_summary p)),
           (''description'', NoneN),
           (''security'', NoneN),
           (''tags'', opt_node (list_node tag_node) (op_tags p)),
           (''externalDocs'', NoneN),
           (''bindings'', NoneN),
           (''traits'', NoneN),
           (''messages'', list_node ref_node (op_messages p)),
           (''reply'', opt_node reply_node (op_reply p))]"

definition channel_node :: "channel_item \<Rightarrow> node" where
  "channel_node c =
     ObjN [(''address'', StrN (ch_address c)),
           (''messages'', opt_node (dict_node message_node) (ch_messages c)),
           (''title'', StrN (ch_title c)),
           (''summary'', opt_node StrN (ch_summary c)),
           (''description'', opt_node StrN (ch_description c)),
           (''servers'', opt_node (list_node ref_node) (ch_servers c)),
           (''parameters'', NoneN),
           (''tags'', NoneN),
           (''externalDocs'', NoneN),
           (''bindings'', NoneN)]"

definition info_node :: "info \<Rightarrow> node" where
  "info_node i =
     ObjN [(''title'', StrN (info_title i)),
           (''version'', StrN (info_version i)),
           (''description'', opt_node StrN (info_description i)),
           (''termsOfService'', NoneN),
           (''contact'', NoneN),
           (''license'', NoneN),
           (''tags'', opt_node (list_node tag_node) (info_tags i)),
           (''externalDocs'', NoneN)]"

definition server_node :: "server \<Rightarrow> node" where
  "server_node s = ObjN [(''host'', StrN (srv_host s)), (''protocol'', StrN (srv_protocol s))]"

definition components_node :: "components \<Rightarrow> node" where
  "components_node c =
     ObjN [(''messages'', opt_node (dict_node message_node) (comp_messages c)),
           (''schemas'', dict_node SchemaN (comp_schemas c))]"

definition doc_node :: "doc \<Rightarrow> node" where
  "doc_node d =
     ObjN [(''asyncapi'', StrN (asyncapi d)),
           (''info'', info_node (doc_info d)),
           (''servers'', dict_node server_node (servers d)),
           (''channels'', dict_node channel_node (channels d)),
           (''operations'', dict_node operation_node (operations d)),
           (''components'', components_node (doc_components d))]"

subsection \<open>The node at a path, as the specification words it\<close>

text \<open>
  Following the specification: each segment navigates by attribute or key lookup.
  \<open>node_at root segments\<close> is the node reached, \<open>None\<close> when a segment is absent.
\<close>

fun child :: "node \<Rightarrow> string \<Rightarrow> node option" where
  "child (ObjN attrs) p = map_of attrs p"
| "child (DictN kvs) p = map_of kvs p"
| "child n p = None"

fun node_at :: "node \<Rightarrow> string list \<Rightarrow> node option" where
  "node_at root [] = Some root"
| "node_at root (p # ps) = (case child root p of None \<Rightarrow> None | Some n \<Rightarrow> node_at n ps)"

text \<open>The segments of a path \<^verbatim>\<open>/a/b/c\<close>.\<close>

definition segments :: "string \<Rightarrow> string list" where
  "segments path = py_split CHR ''/'' (drop 1 path)"

section \<open>A running example\<close>

text \<open>
  A runtime for the examples: CPython with pydantic 1.x, its tables cut down to what
  the examples consult.  The examples are ASCII throughout, so the two Unicode
  functions are never called.  The dataclasses are

  \<^item> 0: \<^verbatim>\<open>Point(x: int, tags: List[str])\<close>,
  \<^item> 1: \<^verbatim>\<open>Node(next: Optional[Node])\<close>, which refers to itself,
  \<^item> 2: \<^verbatim>\<open>Pair(_x: int, y: str)\<close>, with a field pydantic ignores,
  \<^item> 3: \<^verbatim>\<open>Bag(items: List)\<close>, with an unsubscripted \<^verbatim>\<open>typing.List\<close>,
  \<^item> 4: \<^verbatim>\<open>Twin(y: str)\<close>, and 5: a second class \<^verbatim>\<open>Twin(y: str)\<close>,
  \<^item> 6: \<^verbatim>\<open>Broken(x: 'Missing')\<close>, whose forward reference cannot be resolved,
  \<^item> 7: \<^verbatim>\<open>Team(lead: Point, members: List[Point], twins: Union[Twin, Twin'])\<close>, the
    two members of the union being the classes 4 and 5.

  The typing module accepts every parameter but an alias of \<^verbatim>\<open>ClassVar\<close> or \<^verbatim>\<open>Final\<close>.
\<close>

fun std_type :: "ty \<Rightarrow> bool" where
  "std_type (Leaf n) = (n \<in> set [''str'', ''int'', ''bool'', ''float'', ''Any'', ''NoneType''])"
| "std_type Ellipsis = True"
| "std_type (Model cid n flds) = True"
| "std_type (UUIDRef cid n) = True"
| "std_type (BaseModel cid n) = True"
| "std_type (Generic fl origin targs) =
     (origin \<in> {OList, OSet, ODict, OTuple, OUnion} \<and> (\<forall>a \<in> set targs. std_type a))"
| "std_type t = False"

definition demo_classes :: "(nat \<times> string \<times> (error + (string \<times> ty) list)) list" where
  "demo_classes =
     [(0, ''Point'', Inr [(''x'', Leaf ''int''), (''tags'', Generic TypingAlias OList [Leaf ''str''])]),
      (1, ''Node'', Inr [(''next'', Generic TypingAlias OUnion [Dataclass 1, Leaf ''NoneType''])]),
      (2, ''Pair'', Inr [(''_x'', Leaf ''int''), (''y'', Leaf ''str'')]),
      (3, ''Bag'', Inr [(''items'', Generic TypingAlias OList [])]),
      (4, ''Twin'', Inr [(''y'', Leaf ''str'')]),
      (5, ''Twin'', Inr [(''y'', Leaf ''str'')]),
      (6, ''Broken'', Inl (NameError ''Missing'')),
      (7, ''Team'', Inr [(''lead'', Dataclass 0),
                        (''members'', Generic TypingAlias OList [Dataclass 0]),
                        (''twins'', Generic TypingAlias OUnion [Dataclass 4, Dataclass 5])])]"

fun type_argument :: "ty \<Rightarrow> bool" where
  "type_argument (Generic fl (OOther nm) targs) = (nm \<notin> set [''ClassVar'', ''Final''])"
| "type_argument t = True"

definition demo_runtime :: runtime where
  "demo_runtime =
     \<lparr>unicode_title = (\<lambda>s. s),
      unicode_lower = (\<lambda>s. s),
      dataclass_table = map_of demo_classes,
      typing_accepts = (\<lambda>origin params. list_all type_argument params),
      shadows = (\<lambda>n. n \<in> set [''dict'', ''json'', ''copy'', ''schema'', ''schema_json'',
                                  ''parse_obj'', ''parse_raw'', ''parse_file'', ''from_orm'',
                                  ''construct'', ''validate'', ''update_forward_refs'']),
      has_validator = std_type,
      has_schema = std_type,
      recursion_limit = 1000,
      builtin_attribute = (\<lambda>k p. p \<in> set [''__class__'', ''__doc__''])\<rparr>"

text \<open>
  \<^verbatim>\<open>doc = AsyncAPIDoc.default_init(); doc.add_channel("chat")\<close>, and the arguments
  of \<^verbatim>\<open>doc.add_event("chat", "on_message", handler=h)\<close> for three handlers named
  \<^verbatim>\<open>on_message\<close>: \<^verbatim>\<open>(text: str) -> bool\<close>, \<^verbatim>\<open>(text: str)\<close> with no return
  annotation, and \<^verbatim>\<open>(text: str) -> List\<close> with an unsubscripted \<^verbatim>\<open>typing.List\<close>.
\<close>

definition chat_doc :: doc where
  "chat_doc = after (add_channel demo_runtime ''chat'' None None None None None demo_doc)"

definition on_message_args :: "handler option \<Rightarrow> event_args" where
  "on_message_args h =
     \<lparr>ev_channel = ''chat'', ev_id = ''on_message'', ev_handler = h,
      ev_title = None, ev_name = None, ev_summary = None, ev_description = None,
      ev_tags = None, ev_ack_data_model = None, ev_payload_model = None,
      ev_action = ''receive''\<rparr>"

definition text_to_bool :: handler where
  "text_to_bool = \<lparr>h_name = ''on_message'', h_doc = None,
                    h_hints = [(''text'', Leaf ''str''), (''return'', Leaf ''bool'')]\<rparr>"

definition text_only :: handler where
  "text_only = \<lparr>h_name = ''on_message'', h_doc = None,
                 h_hints = [(''text'', Leaf ''str'')]\<rparr>"

definition text_to_bare_list :: handler where
  "text_to_bare_list = \<lparr>h_name = ''on_message'', h_doc = None,
                         h_hints = [(''text'', Leaf ''str''), (''return'', Generic TypingAlias OList [])]\<rparr>"

section \<open>Properties of the type rewriter\<close>

subsection \<open>Descriptors without classes\<close>










text \<open>
  The dataclass \<^verbatim>\<open>Node(next: Optional[Node])\<close> refers to itself: its rewriting
  rewrites it again, and ends when the interpreter allows no further activation.
\<close>

lemma rewrite_type_self_reference_raises:
  "fst (rewrite_type demo_runtime (recursion_limit demo_runtime) (Dataclass 1) empty_caches)
     = Inl RecursionError"
  by code_simp

section \<open>Properties of the tag list\<close>


lemma set_first_None: "set_first x dsc ts = None \<longleftrightarrow> filter (\<lambda>t. tag_name t = x) ts = []"
  by (induction ts) auto

lemma set_first_Some:
  "set_first x dsc ts = Some ts' \<Longrightarrow>
     filter (\<lambda>t. tag_name t \<noteq> x) ts' = filter (\<lambda>t. tag_name t \<noteq> x) ts \<and>
     (\<exists>t rest. filter (\<lambda>t. tag_name t = x) ts = t # rest \<and>
        filter (\<lambda>t. tag_name t = x) ts' = t\<lparr>tag_description := dsc\<rparr> # rest)"
proof (induction ts arbitrary: ts')
  case Nil
  then show ?case by simp
next
  case (Cons a ts)
  show ?case
  proof (cases "tag_name a = x")
    case True
    with Cons.prems show ?thesis by auto
  next
    case False
    with Cons.prems obtain us where us: "set_first x dsc ts = Some us" and ts': "ts' = a # us"
      by auto
    from Cons.IH[OF us] False ts' show ?thesis by auto
  qed
qed

lemma add_global_tag_once:
  assumes "info_tags (doc_info d) = Some ts"
  shows "\<exists>ts'. add_global_tag x dsc d = Returns (d\<lparr>doc_info := (doc_info d)\<lparr>info_tags := Some ts'\<rparr>\<rparr>) \<and>
           filter (\<lambda>t. tag_name t \<noteq> x) ts' = filter (\<lambda>t. tag_name t \<noteq> x) ts \<and>
           filter (\<lambda>t. tag_name t = x) ts' =
             (case filter (\<lambda>t. tag_name t = x) ts of
                [] \<Rightarrow> [\<lparr>tag_name = x, tag_description = dsc\<rparr>]
              | t # rest \<Rightarrow> t\<lparr>tag_description := dsc\<rparr> # rest)"
proof (cases "set_first x dsc ts")
  case None
  then have "filter (\<lambda>t. tag_name t = x) ts = []" by (simp add: set_first_None)
  with None assms show ?thesis
    by (intro exI[of _ "ts @ [\<lparr>tag_name = x, tag_description = dsc\<rparr>]"])
       (simp add: add_global_tag_def)
next
  case (Some ts')
  from set_first_Some[OF Some] Some assms show ?thesis
    by (intro exI[of _ ts']) (auto simp: add_global_tag_def)
qed


lemma set_first_names:
  "set_first x dsc ts = Some ts' \<Longrightarrow> map tag_name ts' = map tag_name ts"
  by (induction ts arbitrary: ts') (auto split: if_splits)

lemma set_first_None_names: "set_first x dsc ts = None \<Longrightarrow> x \<notin> tag_name ` set ts"
  by (induction ts) (auto split: if_splits)

lemma add_global_tag_keeps_distinct:
  assumes "info_tags (doc_info d) = Some ts" and "distinct (map tag_name ts)"
  shows "\<exists>ts'. info_tags (doc_info (after (add_global_tag x dsc d))) = Some ts' \<and>
           distinct (map tag_name ts')"
proof (cases "set_first x dsc ts")
  case None
  from set_first_None_names[OF None] assms None show ?thesis
    by (simp add: add_global_tag_def)
next
  case (Some ts')
  from set_first_names[OF Some] assms Some show ?thesis
    by (simp add: add_global_tag_def)
qed

lemma distinct_names_at_most_one:
  "distinct (map tag_name ts) \<Longrightarrow> length (filter (\<lambda>t. tag_name t = x) ts) \<le> 1"
proof (induction ts)
  case Nil
  then show ?case by simp
next
  case (Cons a ts)
  show ?case
  proof (cases "tag_name a = x")
    case True
    with Cons.prems have "x \<notin> tag_name ` set ts" by simp
    then have "\<forall>t \<in> set ts. tag_name t \<noteq> x" by (blast intro: imageI)
    then have "filter (\<lambda>t. tag_name t = x) ts = []" by (simp add: filter_empty_conv)
    with True show ?thesis by simp
  next
    case False
    with Cons show ?thesis by simp
  qed
qed

lemma default_init_no_tags:
  "info_tags (doc_info (default_init v t dsc url nm proto)) = Some []"
  by (simp add: default_init_def)

section \<open>Properties of add_event\<close>

lemma returned_after: "returned x \<Longrightarrow> x = Returns (after x)"
  by (cases x) simp_all


lemma register_model_frame:
  "register_model rt pm d = Inr (r, d') \<Longrightarrow>
     channels d' = channels d \<and> operations d' = operations d \<and> doc_info d' = doc_info d"
  by (auto simp: register_model_def split: model_arg.splits option.splits if_splits)

lemma messages_of_set_messages:
  "map_of (channels d) channel = Some c \<Longrightarrow> messages_of (set_messages channel ms d) channel = ms"
  by (simp add: messages_of_def set_messages_def map_of_map_entry)

lemma channel_set_messages:
  "map_of (channels d) channel = Some c \<Longrightarrow>
     map_of (channels (set_messages channel ms d)) channel = Some (c\<lparr>ch_messages := Some ms\<rparr>)"
  by (simp add: set_messages_def map_of_map_entry)

lemma channel_put_message:
  "map_of (channels d) channel = Some c \<Longrightarrow>
     map_of (channels (put_message channel k m d)) channel
       = Some (c\<lparr>ch_messages := Some (AList.update k m (messages_of d channel))\<rparr>)"
  by (simp add: put_message_def channel_set_messages)

lemma messages_of_put_message:
  "map_of (channels d) channel = Some c \<Longrightarrow>
     messages_of (put_message channel k m d) channel = AList.update k m (messages_of d channel)"
  by (simp add: put_message_def messages_of_set_messages)

lemma put_message_frame:
  "operations (put_message channel k m d) = operations d \<and>
   doc_components (put_message channel k m d) = doc_components d \<and>
   doc_info (put_message channel k m d) = doc_info d"
  by (simp add: put_message_def set_messages_def)

lemma payload_stage_frame:
  "payload_stage rt i d = Inr (payload, d2) \<Longrightarrow>
     channels d2 = channels d \<and> operations d2 = operations d"
  by (auto simp: payload_stage_def split: option.splits sum.splits dest: register_model_frame)

lemma ack_stage_channel:
  assumes "ack_stage rt a channel ident name payload i d = Returns (reply, d4)"
    and "map_of (channels d) channel = Some c"
  shows "\<exists>c4. map_of (channels d4) channel = Some c4"
  using assms
  by (auto simp: ack_stage_def Let_def channel_put_message
           split: option.splits sum.splits dest!: register_model_frame)

lemma operation_stage_Returns:
  assumes "operation_stage a channel ident name title payload description reply d = Returns d6"
    and "map_of (channels d) channel = Some c"
  shows "\<exists>c6 ms. map_of (channels d6) channel = Some c6 \<and> ch_messages c6 = Some ms \<and>
           ident \<in> fst ` set ms"
  using assms
  by (auto simp: operation_stage_def Let_def channel_put_message dom_update split: if_splits)

lemma finish_event_Returns_message:
  assumes fin: "finish_event rt a channel ident i d s = Returns (d', s')"
    and ch: "map_of (channels d) channel = Some c"
  shows "(\<exists>c' ms. map_of (channels d') channel = Some c' \<and> ch_messages c' = Some ms \<and>
           ident \<in> fst ` set ms) \<and> s' = s"
proof -
  let ?name = "case in_name i of None \<Rightarrow> ident | Some n \<Rightarrow> if n = [] then ident else n"
  let ?title = "case ev_title a of None \<Rightarrow> ?name | Some t \<Rightarrow> if t = [] then ?name else t"
  from fin obtain payload d2 where p: "payload_stage rt i d = Inr (payload, d2)"
    by (auto simp: finish_event_def Let_def split: sum.splits)
  with fin obtain reply d4 where k: "ack_stage rt a channel ident ?name payload i d2 = Returns (reply, d4)"
    by (auto simp: finish_event_def Let_def split: outcome.splits)
  with fin p have o: "operation_stage a channel ident ?name ?title payload (in_description i) reply d4 = Returns d'"
    and s: "s' = s"
    by (auto simp: finish_event_def Let_def split: outcome.splits)
  from payload_stage_frame[OF p] ch have "map_of (channels d2) channel = Some c" by simp
  from ack_stage_channel[OF k this] obtain c4 where "map_of (channels d4) channel = Some c4" ..
  from operation_stage_Returns[OF o this] s show ?thesis by simp
qed

lemma add_event_Returns_message:
  assumes "add_event rt a (d, s) = Returns (d', s')"
  shows "\<exists>c' ms. map_of (channels d') (sanitize_id (ev_channel a)) = Some c' \<and>
           ch_messages c' = Some ms \<and> normalize_id rt (ev_id a) \<in> fst ` set ms"
proof -
  let ?ch = "sanitize_id (ev_channel a)"
  let ?id = "normalize_id rt (ev_id a)"
  from assms obtain c where c: "map_of (channels d) ?ch = Some c"
    by (auto simp: add_event_def Let_def split: option.splits)
  let ?d1 = "if \<not> truthy (ch_messages c) then set_messages ?ch [] d else d"
  from c have "\<exists>c1. map_of (channels ?d1) ?ch = Some c1"
    by (simp add: channel_set_messages)
  then obtain c1 where c1: "map_of (channels ?d1) ?ch = Some c1" ..
  from assms c obtain i s1 where "finish_event rt a ?ch ?id i ?d1 s1 = Returns (d', s')"
    by (auto simp: add_event_def Let_def split: option.splits if_splits prod.splits sum.splits)
  from finish_event_Returns_message[OF this c1] show ?thesis by blast
qed

lemma synth_ack_explicit:
  "synth_ack rt prefix hints (Some am) s = (Some am, None, s)"
  by (simp add: synth_ack_def split: option.splits)

lemma introspect_explicit_ack:
  assumes insp: "introspect rt a ident s = (Inr i, s1)"
    and ack: "ev_ack_data_model a = Some am"
  shows "in_ack_data_model i = Some am \<and> in_ack_title i = None"
proof (cases "ev_handler a")
  case None
  with insp ack show ?thesis by (auto simp: introspect_def)
next
  case (Some h)
  with insp ack show ?thesis
    by (auto simp: introspect_def inspect_handler_def Let_def synth_ack_explicit
             split: prod.splits sum.splits)
qed

lemma register_model_schema:
  assumes "is_pydantic m" and "has_schema rt m"
  shows "\<exists>n. class_name rt m = Some n \<and>
           register_model rt (ModelClass m) d =
             Inr (Reference (''#/components/schemas/'' @ n),
                  d\<lparr>doc_components := (doc_components d)\<lparr>comp_schemas :=
                       AList.update n (SchemaOf (''/components/schemas/'' @ n) m)
                         (comp_schemas (doc_components d))\<rparr>\<rparr>)"
  using assms by (cases m) (simp_all add: register_model_def)

lemma register_model_total:
  "schema_model rt pm \<Longrightarrow> \<exists>r d'. register_model rt pm d = Inr (r, d')"
proof (cases pm)
  case NotProvided
  moreover assume "schema_model rt pm"
  ultimately show ?thesis by simp
next
  case (ModelClass m)
  moreover assume "schema_model rt pm"
  ultimately have "is_pydantic m" "has_schema rt m" by simp_all
  from register_model_schema[OF this, of d] ModelClass show ?thesis by auto
qed

lemma messages_of_set_empty:
  assumes "map_of (channels d) channel = Some c" and "\<not> truthy (ch_messages c)"
  shows "messages_of (set_messages channel [] d) ch' = messages_of d ch'"
  using assms
  by (auto simp: messages_of_def set_messages_def map_of_map_entry truthy_def
           split: option.splits)

lemma messages_of_channels_eq: "channels d' = channels d \<Longrightarrow> messages_of d' ch = messages_of d ch"
  by (simp add: messages_of_def)

lemma finish_event_with_ack:
  assumes fin: "finish_event rt a channel ident i d s = Returns (d', s')"
    and ch: "map_of (channels d) channel = Some c"
    and ia: "in_ack_data_model i = Some (ModelClass M)"
    and cn: "class_name rt M = Some n"
    and it: "in_ack_title i = Some t"
  shows "map_of (comp_schemas (doc_components d')) n
           = Some (SchemaOf (''/components/schemas/'' @ n) M) \<and>
         (\<exists>m. map_of (messages_of d' channel) (ident @ ''Ack'') = Some m \<and> msg_title m = t) \<and>
         (\<exists>op. map_of (operations d') (channel @ ''/'' @ ident) = Some op \<and>
            op_reply op = Some \<lparr>reply_channel = make_ref (''/channels/'' @ channel),
               reply_messages = [make_ref (''/channels/'' @ channel @ ''/messages/'' @ ident @ ''Ack'')]\<rparr>) \<and>
         s' = s"
proof -
  let ?name = "case in_name i of None \<Rightarrow> ident | Some n \<Rightarrow> if n = [] then ident else n"
  let ?title = "case ev_title a of None \<Rightarrow> ?name | Some t \<Rightarrow> if t = [] then ?name else t"
  from fin obtain payload d2 where p: "payload_stage rt i d = Inr (payload, d2)"
    by (auto simp: finish_event_def Let_def split: sum.splits)
  with fin obtain reply d4 where k: "ack_stage rt a channel ident ?name payload i d2 = Returns (reply, d4)"
    by (auto simp: finish_event_def Let_def split: outcome.splits)
  with fin p have o: "operation_stage a channel ident ?name ?title payload (in_description i) reply d4 = Returns d'"
    and s: "s' = s"
    by (auto simp: finish_event_def Let_def split: outcome.splits)
  from payload_stage_frame[OF p] ch have c2: "map_of (channels d2) channel = Some c" by simp
  let ?d3 = "d2\<lparr>doc_components := (doc_components d2)\<lparr>comp_schemas :=
                     AList.update n (SchemaOf (''/components/schemas/'' @ n) M)
                       (comp_schemas (doc_components d2))\<rparr>\<rparr>"
  let ?ackmsg = "\<lparr>msg_name = ?name @ ''_ack'', msg_title = t, msg_summary = None,
                   msg_description = None,
                   msg_payload = (case payload of None \<Rightarrow> None
                      | Some p \<Rightarrow> Some (Reference (''#/components/schemas/'' @ n))),
                   msg_tags = tag_objs (ev_tags a)\<rparr>"
  from k ia obtain ack0 d30 where "register_model rt (ModelClass M) d2 = Inr (ack0, d30)"
    by (auto simp: ack_stage_def split: sum.splits)
  with cn have reg: "register_model rt (ModelClass M) d2
      = Inr (Reference (''#/components/schemas/'' @ n), ?d3)"
    by (auto simp: register_model_def split: if_splits)
  from ia reg it have "ack_stage rt a channel ident ?name payload i d2
      = Returns (Some \<lparr>reply_channel = make_ref (''/channels/'' @ channel),
               reply_messages = [make_ref (''/channels/'' @ channel @ ''/messages/'' @ ident @ ''Ack'')]\<rparr>,
                 put_message channel (ident @ ''Ack'') ?ackmsg ?d3)"
    by (simp add: ack_stage_def Let_def cong: option.case_cong)
  with k have d4: "d4 = put_message channel (ident @ ''Ack'') ?ackmsg ?d3"
    and reply: "reply = Some \<lparr>reply_channel = make_ref (''/channels/'' @ channel),
               reply_messages = [make_ref (''/channels/'' @ channel @ ''/messages/'' @ ident @ ''Ack'')]\<rparr>"
    by simp_all
  from c2 have c3: "map_of (channels ?d3) channel = Some c" by simp
  from channel_put_message[OF c3] d4 obtain c4 where c4: "map_of (channels d4) channel = Some c4"
    by simp
  from messages_of_put_message[OF c3] d4
  have m4: "messages_of d4 channel = AList.update (ident @ ''Ack'') ?ackmsg (messages_of ?d3 channel)"
    by simp
  let ?msg = "\<lparr>msg_name = ?name, msg_title = ?title, msg_summary = ev_summary a,
               msg_description = in_description i, msg_payload = payload,
               msg_tags = tag_objs (ev_tags a)\<rparr>"
  let ?d5 = "put_message channel ident ?msg d4"
  let ?op = "\<lparr>op_action = ev_action a,
                      op_channel = make_ref (''/channels/'' @ channel),
                      op_title = ?title, op_summary = ident,
                      op_messages = [make_ref (''/channels/'' @ channel @ ''/messages/'' @ ident)],
                      op_reply = reply, op_tags = tag_objs (ev_tags a)\<rparr>"
  from o have act: "\<not> (ev_action a \<noteq> ''send'' \<and> ev_action a \<noteq> ''receive'')"
    by (auto simp add: operation_stage_def Let_def split: if_splits)
  then have "operation_stage a channel ident ?name ?title payload (in_description i) reply d4
      = Returns (?d5\<lparr>operations := AList.update (channel @ ''/'' @ ident) ?op (operations ?d5)\<rparr>)"
    by (simp add: operation_stage_def Let_def)
  with o have d': "d' = ?d5\<lparr>operations := AList.update (channel @ ''/'' @ ident) ?op (operations ?d5)\<rparr>"
    by simp
  have "messages_of d' channel = messages_of ?d5 channel"
    by (rule messages_of_channels_eq) (simp add: d')
  also have "\<dots> = AList.update ident ?msg (messages_of d4 channel)"
    by (rule messages_of_put_message[OF c4])
  finally have "map_of (messages_of d' channel) (ident @ ''Ack'') = Some ?ackmsg"
    by (simp add: m4 update_conv')
  moreover have "doc_components d' = doc_components ?d3"
    by (simp add: d' d4 put_message_frame)
  then have "map_of (comp_schemas (doc_components d')) n
           = Some (SchemaOf (''/components/schemas/'' @ n) M)"
    by (simp add: update_conv')
  moreover have "map_of (operations d') (channel @ ''/'' @ ident) = Some ?op"
    by (simp add: d' update_conv')
  ultimately show ?thesis using reply s by simp
qed


lemma finish_event_without_ack:
  assumes fin: "finish_event rt a channel ident i d s = Returns (d', s')"
    and ia: "in_ack_data_model i = None"
  shows "\<exists>op. map_of (operations d') (channel @ ''/'' @ ident) = Some op \<and> op_reply op = None"
proof -
  let ?name = "case in_name i of None \<Rightarrow> ident | Some n \<Rightarrow> if n = [] then ident else n"
  let ?title = "case ev_title a of None \<Rightarrow> ?name | Some t \<Rightarrow> if t = [] then ?name else t"
  from fin obtain payload d2 where p: "payload_stage rt i d = Inr (payload, d2)"
    by (auto simp: finish_event_def Let_def split: sum.splits)
  from ia have k: "ack_stage rt a channel ident ?name payload i d2 = Returns (None, d2)"
    by (simp add: ack_stage_def)
  with fin p have o: "operation_stage a channel ident ?name ?title payload (in_description i) None d2 = Returns d'"
    by (auto simp: finish_event_def Let_def split: outcome.splits)
  then show ?thesis
    by (auto simp add: operation_stage_def Let_def update_conv' split: if_splits)
qed

lemma kept_ack_fields [simp]: "kept_fields (ack_fields r) = ack_fields r"
  by (simp add: kept_fields_def ack_fields_def is_valid_field_def startswith_def)

lemma synth_ack_cases:
  assumes rtn: "map_of hints ''return'' = Some return_type"
    and nn: "return_type \<noteq> none_type"
  shows "ack_block_completes rt prefix hints s \<Longrightarrow>
           \<exists>mid r s3 s4. rewrite_type rt (recursion_limit rt) return_type s = (Inr r, s3) \<and>
             synth_ack rt prefix hints None s
               = (Some (ModelClass (Model mid (prefix @ ''Ack'') (ack_fields r))),
                  Some (prefix @ ''Ack''), s4)"
    and "\<not> ack_block_completes rt prefix hints s \<Longrightarrow>
           \<exists>s4. synth_ack rt prefix hints None s = (None, Some (prefix @ ''Ack''), s4)"
proof -
  obtain x s3 where r: "rewrite_type rt (recursion_limit rt) return_type s = (x, s3)"
    by (cases "rewrite_type rt (recursion_limit rt) return_type s")
  {
    assume c: "ack_block_completes rt prefix hints s"
    with rtn r obtain rr where x: "x = Inr rr"
      by (cases x) (simp_all add: ack_block_completes_def)
    from c rtn r x have "check_fields rt (ack_fields rr) = None"
      by (auto simp: ack_block_completes_def create_model_def split: option.splits)
    with r x rtn nn show "\<exists>mid r s3 s4. rewrite_type rt (recursion_limit rt) return_type s = (Inr r, s3) \<and>
             synth_ack rt prefix hints None s
               = (Some (ModelClass (Model mid (prefix @ ''Ack'') (ack_fields r))),
                  Some (prefix @ ''Ack''), s4)"
      by (simp add: synth_ack_def create_model_def)
  }
  {
    assume c: "\<not> ack_block_completes rt prefix hints s"
    show "\<exists>s4. synth_ack rt prefix hints None s = (None, Some (prefix @ ''Ack''), s4)"
    proof (cases x)
      case (Inl e)
      with r rtn nn show ?thesis by (simp add: synth_ack_def)
    next
      case (Inr rr)
      with c rtn r have "check_fields rt (ack_fields rr) \<noteq> None"
        by (auto simp: ack_block_completes_def create_model_def split: option.splits)
      with r Inr rtn nn show ?thesis
        by (auto simp add: synth_ack_def create_model_def)
    qed
  }
qed

section \<open>Properties of reference resolution\<close>

lemma py_getattr_child:
  "py_getattr rt n p = Inr v \<Longrightarrow> child n p = Some v \<or> v = BuiltinN p"
  by (cases n) (auto split: option.splits if_splits)

lemma resolve_ref_attribute_path:
  "resolve_ref demo_runtime (doc_node chat_doc) (ref_node (make_ref ''/info/version''))
     = Inr (StrN ''1.0.0'')"
  by code_simp

lemma resolve_ref_method_name:
  "resolve_ref demo_runtime (doc_node chat_doc) (StrN ''#/channels/keys'') = Inr (BuiltinN ''keys'')"
  by code_simp

section \<open>Claims about the type rewriter\<close>




section \<open>Claims about tags and channels\<close>

text \<open>
  Claim C8.  On a document whose tag list holds at most one tag named \<open>x\<close> (as every
  tag list written by \<open>add_global_tag\<close> does), \<open>add_global_tag x d1\<close> followed by
  \<open>add_global_tag x d2\<close> both return, leave exactly one tag named \<open>x\<close>, with
  description \<open>d2\<close>, leave the tags of other names as they were, and change nothing
  else in the document.
\<close>

theorem add_global_tag_upsert:
  assumes tags: "info_tags (doc_info d) = Some ts"
    and one: "length (filter (\<lambda>t. tag_name t = x) ts) \<le> 1"
  shows "\<exists>d1 d2 ts2.
           add_global_tag x (Some desc1) d = Returns d1 \<and>
           add_global_tag x (Some desc2) d1 = Returns d2 \<and>
           d2 = d\<lparr>doc_info := (doc_info d)\<lparr>info_tags := Some ts2\<rparr>\<rparr> \<and>
           filter (\<lambda>t. tag_name t = x) ts2 = [\<lparr>tag_name = x, tag_description = Some desc2\<rparr>] \<and>
           filter (\<lambda>t. tag_name t \<noteq> x) ts2 = filter (\<lambda>t. tag_name t \<noteq> x) ts"
proof -
  from add_global_tag_once[OF tags, of x "Some desc1"] obtain ts1
    where c1: "add_global_tag x (Some desc1) d
                 = Returns (d\<lparr>doc_info := (doc_info d)\<lparr>info_tags := Some ts1\<rparr>\<rparr>)"
      and o1: "filter (\<lambda>t. tag_name t \<noteq> x) ts1 = filter (\<lambda>t. tag_name t \<noteq> x) ts"
      and x1: "filter (\<lambda>t. tag_name t = x) ts1 =
             (case filter (\<lambda>t. tag_name t = x) ts of
                [] \<Rightarrow> [\<lparr>tag_name = x, tag_description = Some desc1\<rparr>]
              | t # rest \<Rightarrow> t\<lparr>tag_description := Some desc1\<rparr> # rest)"
    by blast
  let ?d1 = "d\<lparr>doc_info := (doc_info d)\<lparr>info_tags := Some ts1\<rparr>\<rparr>"
  have t1: "info_tags (doc_info ?d1) = Some ts1" by simp
  from add_global_tag_once[OF t1, of x "Some desc2"] obtain ts2
    where c2: "add_global_tag x (Some desc2) ?d1
                 = Returns (d\<lparr>doc_info := (doc_info d)\<lparr>info_tags := Some ts2\<rparr>\<rparr>)"
      and o2: "filter (\<lambda>t. tag_name t \<noteq> x) ts2 = filter (\<lambda>t. tag_name t \<noteq> x) ts1"
      and x2: "filter (\<lambda>t. tag_name t = x) ts2 =
             (case filter (\<lambda>t. tag_name t = x) ts1 of
                [] \<Rightarrow> [\<lparr>tag_name = x, tag_description = Some desc2\<rparr>]
              | t # rest \<Rightarrow> t\<lparr>tag_description := Some desc2\<rparr> # rest)"
    by auto
  have "\<exists>t. filter (\<lambda>t. tag_name t = x) ts1 = [t] \<and> tag_name t = x"
  proof (cases "filter (\<lambda>t. tag_name t = x) ts")
    case Nil
    with x1 show ?thesis by simp
  next
    case (Cons t rest)
    with one have "rest = []" by simp
    moreover have "t \<in> set (filter (\<lambda>t. tag_name t = x) ts)" using Cons by simp
    then have "tag_name t = x" by simp
    ultimately show ?thesis using x1 Cons by simp
  qed
  then obtain t where "filter (\<lambda>t. tag_name t = x) ts1 = [t]" "tag_name t = x" by blast
  with x2 have "filter (\<lambda>t. tag_name t = x) ts2 = [\<lparr>tag_name = x, tag_description = Some desc2\<rparr>]"
    by (cases t) simp
  with c1 c2 o1 o2 show ?thesis by auto
qed

theorem add_global_tag_upsert_witness:
  "\<exists>d1 d2 ts2.
     add_global_tag ''x'' (Some ''d1'') demo_doc = Returns d1 \<and>
     add_global_tag ''x'' (Some ''d2'') d1 = Returns d2 \<and>
     d2 = demo_doc\<lparr>doc_info := (doc_info demo_doc)\<lparr>info_tags := Some ts2\<rparr>\<rparr> \<and>
     filter (\<lambda>t. tag_name t = ''x'') ts2 = [\<lparr>tag_name = ''x'', tag_description = Some ''d2''\<rparr>] \<and>
     filter (\<lambda>t. tag_name t \<noteq> ''x'') ts2 = []"
proof -
  have tags: "info_tags (doc_info demo_doc) = Some []"
    by (simp add: demo_doc_def default_init_def)
  have one: "length (filter (\<lambda>t. tag_name t = ''x'') []) \<le> 1" by simp
  from add_global_tag_upsert[OF tags one, of "''d1''" "''d2''"] show ?thesis by simp
qed

text \<open>
  Claim C9.  After an \<open>add_channel\<close> that returned, an \<open>add_channel\<close> whose id
  sanitizes to the same key raises the duplicate-channel error and leaves the
  document, and with it the first channel, as it was.
\<close>

theorem add_channel_duplicate:
  assumes first: "add_channel rt id1 address1 title1 summary1 description1 servers1 d = Returns d1"
    and same: "sanitize_id id2 = sanitize_id id1"
  shows "add_channel rt id2 address2 title2 summary2 description2 servers2 d1
           = Raises (ChannelExists (sanitize_id id1)) d1 \<and>
         (\<exists>c. map_of (channels d1) (sanitize_id id1) = Some c \<and>
              ch_address c = (case address1 of None \<Rightarrow> id1 | Some a \<Rightarrow> if a = [] then id1 else a) \<and>
              ch_summary c = summary1 \<and> ch_description c = description1)"
proof -
  from first have "map_of (channels d) (sanitize_id id1) = None"
    by (auto simp: add_channel_def Let_def split: option.splits)
  with first obtain c where c: "map_of (channels d1) (sanitize_id id1) = Some c"
     and f: "ch_address c = (case address1 of None \<Rightarrow> id1 | Some a \<Rightarrow> if a = [] then id1 else a)"
      "ch_summary c = summary1" "ch_description c = description1"
    by (auto simp: add_channel_def Let_def update_conv')
  from c same have "add_channel rt id2 address2 title2 summary2 description2 servers2 d1
           = Raises (ChannelExists (sanitize_id id1)) d1"
    by (simp add: add_channel_def Let_def)
  with c f show ?thesis by blast
qed

theorem add_channel_duplicate_witness:
  "add_channel demo_runtime ''chat/'' (Some ''elsewhere'') (Some ''Other'') None None (Some [''BACKEND''])
      (after (add_channel demo_runtime ''/chat'' None None (Some ''talk'') None None demo_doc))
     = Raises (ChannelExists ''chat'')
         (after (add_channel demo_runtime ''/chat'' None None (Some ''talk'') None None demo_doc)) \<and>
   (\<exists>c. map_of (channels (after (add_channel demo_runtime ''/chat'' None None (Some ''talk'') None None demo_doc)))
            ''chat'' = Some c \<and>
        ch_address c = ''/chat'' \<and> ch_summary c = Some ''talk'' \<and> ch_description c = None)"
proof -
  have first: "add_channel demo_runtime ''/chat'' None None (Some ''talk'') None None demo_doc
                 = Returns (after (add_channel demo_runtime ''/chat'' None None (Some ''talk'') None None demo_doc))"
    by (simp add: add_channel_def Let_def demo_doc_def default_init_def sanitize_id_def
                  remove_char_def)
  have same: "sanitize_id ''chat/'' = sanitize_id ''/chat''"
    by (simp add: sanitize_id_def remove_char_def)
  have key: "sanitize_id ''/chat'' = ''chat''"
    by (simp add: sanitize_id_def remove_char_def)
  from add_channel_duplicate[OF first same, of "Some ''elsewhere''" "Some ''Other''" None None
        "Some [''BACKEND'']"] key
  show ?thesis by simp
qed

section \<open>Claims about add_event\<close>

text \<open>
  Claim C4.  After an \<open>add_event\<close> that returned, an \<open>add_event\<close> on the same
  sanitized channel with the same normalized id raises the duplicate-message
  error, and leaves the document and the module state exactly as the first call
  left them.
\<close>

theorem add_event_duplicate:
  assumes first: "add_event rt a1 (d, s) = Returns (d1, s1)"
    and channel: "sanitize_id (ev_channel a2) = sanitize_id (ev_channel a1)"
    and ident: "normalize_id rt (ev_id a2) = normalize_id rt (ev_id a1)"
  shows "add_event rt a2 (d1, s1) =
           Raises (MessageExists (normalize_id rt (ev_id a1)) (sanitize_id (ev_channel a1))) (d1, s1)"
proof -
  from add_event_Returns_message[OF first] obtain c ms
    where c: "map_of (channels d1) (sanitize_id (ev_channel a1)) = Some c"
      and ms: "ch_messages c = Some ms" and el: "normalize_id rt (ev_id a1) \<in> fst ` set ms"
    by blast
  from el have "ms \<noteq> []" by auto
  with ms have t: "truthy (ch_messages c)" by (simp add: truthy_def)
  from c ms have "messages_of d1 (sanitize_id (ev_channel a1)) = ms" by (simp add: messages_of_def)
  with c t el channel ident show ?thesis
    by (simp add: add_event_def Let_def)
qed

theorem add_event_duplicate_witness:
  "add_event demo_runtime ((on_message_args None)\<lparr>ev_channel := ''/chat'', ev_id := ''message''\<rparr>)
      (after (add_event demo_runtime (on_message_args (Some text_to_bool)) (chat_doc, empty_caches)))
     = Raises (MessageExists ''message'' ''chat'')
         (after (add_event demo_runtime (on_message_args (Some text_to_bool)) (chat_doc, empty_caches)))"
proof -
  let ?a1 = "on_message_args (Some text_to_bool)"
  let ?a2 = "(on_message_args None)\<lparr>ev_channel := ''/chat'', ev_id := ''message''\<rparr>"
  have "returned (add_event demo_runtime ?a1 (chat_doc, empty_caches))" by code_simp
  then have first: "add_event demo_runtime ?a1 (chat_doc, empty_caches)
      = Returns (fst (after (add_event demo_runtime ?a1 (chat_doc, empty_caches))),
                 snd (after (add_event demo_runtime ?a1 (chat_doc, empty_caches))))"
    using returned_after by fastforce
  have channel: "sanitize_id (ev_channel ?a2) = sanitize_id (ev_channel ?a1)" by code_simp
  have ident: "normalize_id demo_runtime (ev_id ?a2) = normalize_id demo_runtime (ev_id ?a1)" by code_simp
  have c: "sanitize_id (ev_channel ?a1) = ''chat''" by code_simp
  have i: "normalize_id demo_runtime (ev_id ?a1) = ''message''" by code_simp
  from add_event_duplicate[OF first channel ident] c i show ?thesis by simp
qed

text \<open>
  Claim C2: what the code does when the handler has no return annotation.
  \<^verbatim>\<open>get_type_hints\<close> then has no key \<^verbatim>\<open>return\<close>, and
  \<^verbatim>\<open>list(type_hints.keys())[:-1]\<close> drops the last parameter instead: for the handler
  \<^verbatim>\<open>on_message(text: str)\<close> the payload model has no field at all.
\<close>

theorem add_event_unannotated_return_drops_parameter:
  "returned (add_event demo_runtime (on_message_args (Some text_only)) (chat_doc, empty_caches)) \<and>
   map_of (comp_schemas (doc_components (fst (after
       (add_event demo_runtime (on_message_args (Some text_only)) (chat_doc, empty_caches))))))
     ''MessagePayload''
   = Some (SchemaOf ''/components/schemas/MessagePayload'' (Model 0 ''MessagePayload'' []))"
  by code_simp

text \<open>
  Claim C10, as stated, fails: \<^verbatim>\<open>ack_data_model="NotProvided"\<close> is an explicit ack model
  the signature allows, and with it the call raises AttributeError at
  \<^verbatim>\<open>ack_data_model.__name__\<close>, before any schema is written.
\<close>

theorem add_event_not_provided_ack:
  "add_event demo_runtime ((on_message_args None)\<lparr>ev_ack_data_model := Some NotProvided\<rparr>)
      (chat_doc, empty_caches)
     = Raises (AttributeError ''__name__'')
         (after (add_event demo_runtime
                   ((on_message_args None)\<lparr>ev_ack_data_model := Some NotProvided\<rparr>)
                   (chat_doc, empty_caches))) \<and>
   comp_schemas (doc_components (fst (after (add_event demo_runtime
                   ((on_message_args None)\<lparr>ev_ack_data_model := Some NotProvided\<rparr>)
                   (chat_doc, empty_caches)))))
     = [(''NoSpec'', NoSpec)]"
  by code_simp

text \<open>
  Claim C10, amended.  On an existing channel and a new id, when the handler block
  (if a handler is given) does not raise, a call that supplies as
  \<open>ack_data_model\<close> a pydantic model class with a JSON schema, its payload model (if
  any) being one too, raises UnboundLocalError for \<^verbatim>\<open>ack_title\<close>.  At that point
  the ack schema is in \<^verbatim>\<open>components.schemas\<close> under the name of the class; no
  message has been added to any channel and no operation has been added.
\<close>

theorem add_event_explicit_ack_raises:
  assumes ch: "map_of (channels d) (sanitize_id (ev_channel a)) = Some c"
    and fresh: "normalize_id rt (ev_id a) \<notin> fst ` set (messages_of d (sanitize_id (ev_channel a)))"
    and ack: "ev_ack_data_model a = Some (ModelClass m)"
    and pyd: "is_pydantic m" and sch: "has_schema rt m"
    and insp: "introspect rt a (normalize_id rt (ev_id a)) s = (Inr i, s1)"
    and pay: "case in_payload_model i of None \<Rightarrow> True | Some pm \<Rightarrow> schema_model rt pm"
  shows "\<exists>d' n. add_event rt a (d, s) = Raises (UnboundLocalError ''ack_title'') (d', s1) \<and>
           class_name rt m = Some n \<and>
           map_of (comp_schemas (doc_components d')) n
             = Some (SchemaOf (''/components/schemas/'' @ n) m) \<and>
           (\<forall>ch'. messages_of d' ch' = messages_of d ch') \<and>
           operations d' = operations d"
proof -
  let ?ch = "sanitize_id (ev_channel a)"
  let ?id = "normalize_id rt (ev_id a)"
  let ?d1 = "if \<not> truthy (ch_messages c) then set_messages ?ch [] d else d"
  have m1: "\<And>ch'. messages_of ?d1 ch' = messages_of d ch'"
    using ch by (simp add: messages_of_set_empty)
  have o1: "operations ?d1 = operations d" by (simp add: set_messages_def)
  from introspect_explicit_ack[OF insp ack]
  have ia: "in_ack_data_model i = Some (ModelClass m)" and it: "in_ack_title i = None"
    by simp_all
  have "\<exists>payload d2. payload_stage rt i ?d1 = Inr (payload, d2)"
  proof (cases "in_payload_model i")
    case None
    then show ?thesis by (simp add: payload_stage_def)
  next
    case (Some pm)
    with pay have "schema_model rt pm" by simp
    from register_model_total[OF this, of ?d1] Some show ?thesis
      by (auto simp: payload_stage_def)
  qed
  then obtain payload d2 where p: "payload_stage rt i ?d1 = Inr (payload, d2)" by blast
  from register_model_schema[OF pyd sch, of d2] obtain n
    where n: "class_name rt m = Some n"
      and reg: "register_model rt (ModelClass m) d2 =
             Inr (Reference (''#/components/schemas/'' @ n),
                  d2\<lparr>doc_components := (doc_components d2)\<lparr>comp_schemas :=
                       AList.update n (SchemaOf (''/components/schemas/'' @ n) m)
                         (comp_schemas (doc_components d2))\<rparr>\<rparr>)"
    by blast
  let ?d3 = "d2\<lparr>doc_components := (doc_components d2)\<lparr>comp_schemas :=
                     AList.update n (SchemaOf (''/components/schemas/'' @ n) m)
                       (comp_schemas (doc_components d2))\<rparr>\<rparr>"
  let ?name = "case in_name i of None \<Rightarrow> ?id | Some n \<Rightarrow> if n = [] then ?id else n"
  from ia it reg have k: "ack_stage rt a ?ch ?id ?name payload i d2
                           = Raises (UnboundLocalError ''ack_title'') (None, ?d3)"
    by (simp add: ack_stage_def)
  from p k have fin: "finish_event rt a ?ch ?id i ?d1 s1
                        = Raises (UnboundLocalError ''ack_title'') (?d3, s1)"
    by (simp add: finish_event_def Let_def)
  from fresh m1 have "?id \<notin> fst ` set (messages_of ?d1 ?ch)" by simp
  with ch insp fin have res: "add_event rt a (d, s) = Raises (UnboundLocalError ''ack_title'') (?d3, s1)"
    by (simp add: add_event_def Let_def)
  from payload_stage_frame[OF p] have f2: "channels d2 = channels ?d1" "operations d2 = operations ?d1"
    by simp_all
  have "\<And>ch'. messages_of ?d3 ch' = messages_of d ch'"
    using f2(1) m1 by (simp add: messages_of_def)
  moreover have "operations ?d3 = operations d" using f2(2) o1 by simp
  moreover have "map_of (comp_schemas (doc_components ?d3)) n
             = Some (SchemaOf (''/components/schemas/'' @ n) m)"
    by (simp add: update_conv')
  ultimately show ?thesis using res n by blast
qed

theorem add_event_explicit_ack_raises_witness:
  "\<exists>d' s1. add_event demo_runtime ((on_message_args (Some text_to_bool))
                         \<lparr>ev_ack_data_model := Some (ModelClass (BaseModel 9 ''MyAck''))\<rparr>)
              (chat_doc, empty_caches)
             = Raises (UnboundLocalError ''ack_title'') (d', s1) \<and>
           map_of (comp_schemas (doc_components d')) ''MyAck''
             = Some (SchemaOf ''/components/schemas/MyAck'' (BaseModel 9 ''MyAck'')) \<and>
           (\<forall>ch'. messages_of d' ch' = messages_of chat_doc ch') \<and>
           operations d' = operations chat_doc"
proof -
  let ?a = "(on_message_args (Some text_to_bool))
              \<lparr>ev_ack_data_model := Some (ModelClass (BaseModel 9 ''MyAck''))\<rparr>"
  let ?r = "introspect demo_runtime ?a (normalize_id demo_runtime (ev_id ?a)) empty_caches"
  have ch: "map_of (channels chat_doc) (sanitize_id (ev_channel ?a))
              = Some \<lparr>ch_address = ''chat'', ch_title = ''Chat'', ch_summary = None,
                      ch_description = None, ch_servers = None, ch_messages = None\<rparr>"
    by code_simp
  have fresh: "normalize_id demo_runtime (ev_id ?a)
                 \<notin> fst ` set (messages_of chat_doc (sanitize_id (ev_channel ?a)))"
    by code_simp
  have ack: "ev_ack_data_model ?a = Some (ModelClass (BaseModel 9 ''MyAck''))" by simp
  have pyd: "is_pydantic (BaseModel 9 ''MyAck'')" by simp
  have sch: "has_schema demo_runtime (BaseModel 9 ''MyAck'')" by (simp add: demo_runtime_def)
  have insp: "?r = (Inr \<lparr>in_name = Some ''on_message'', in_description = None,
                         in_payload_model = Some (ModelClass (Model 0 ''MessagePayload'' [(''text'', Leaf ''str'')])),
                         in_ack_data_model = Some (ModelClass (BaseModel 9 ''MyAck'')),
                         in_ack_title = None\<rparr>,
                   \<lparr>ref_cache = [], dc_cache = [], next_id = 1\<rparr>)"
    by code_simp
  have pay: "case in_payload_model \<lparr>in_name = Some ''on_message'', in_description = None,
                         in_payload_model = Some (ModelClass (Model 0 ''MessagePayload'' [(''text'', Leaf ''str'')])),
                         in_ack_data_model = Some (ModelClass (BaseModel 9 ''MyAck'')),
                         in_ack_title = None\<rparr> of None \<Rightarrow> True
             | Some pm \<Rightarrow> schema_model demo_runtime pm"
    by (simp add: demo_runtime_def)
  from add_event_explicit_ack_raises[OF ch fresh ack pyd sch insp pay] show ?thesis by auto
qed

text \<open>
  Claim C3, as stated, fails: for the handler \<^verbatim>\<open>on_message(text: str) -> List\<close> the
  rewrite of the return type raises IndexError, the exception is caught and
  printed, and the call returns with no ack schema, no ack message and an operation
  without a reply.
\<close>

theorem add_event_bare_list_return_no_ack:
  "returned (add_event demo_runtime (on_message_args (Some text_to_bare_list))
                (chat_doc, empty_caches)) \<and>
   map_of (comp_schemas (doc_components (fst (after
       (add_event demo_runtime (on_message_args (Some text_to_bare_list))
          (chat_doc, empty_caches))))))
     ''MessageAck'' = None \<and>
   map_of (messages_of (fst (after
       (add_event demo_runtime (on_message_args (Some text_to_bare_list))
          (chat_doc, empty_caches)))) ''chat'')
     ''messageAck'' = None \<and>
   map_option op_reply (map_of (operations (fst (after
       (add_event demo_runtime (on_message_args (Some text_to_bare_list))
          (chat_doc, empty_caches)))))
     ''chat/message'') = Some None"
  by code_simp

text \<open>
  Claim C3, amended.  Take an \<open>add_event\<close> that returns, for a handler whose return
  annotation is not \<^verbatim>\<open>None\<close>, with no explicit ack model.  When the two calls of the
  synthesis (\<open>rewrite_type\<close> on the return annotation, then \<^verbatim>\<open>create_model\<close>) return,
  \<^verbatim>\<open>components.schemas\<close> holds under \<open><Prefix>Ack\<close> the schema of a model of that name
  with exactly the fields \<open>success: bool\<close>, \<open>error: Optional[Any]\<close> and \<open>data\<close>, the
  latter typed as what \<open>rewrite_type\<close> returned for the return annotation; the channel
  holds the ack message under \<open><id>Ack\<close>; and the operation \<open><channel>/<id>\<close> carries
  a reply whose messages are exactly the pointer to that ack message.  When one of
  the two calls raises, the operation carries no reply.
\<close>

theorem add_event_synthesizes_ack:
  assumes ret: "add_event rt a (d, s) = Returns (d', s')"
    and h: "ev_handler a = Some h"
    and rtn: "map_of (h_hints h) ''return'' = Some return_type"
    and nn: "return_type \<noteq> none_type"
    and noack: "ev_ack_data_model a = None"
  shows "(ack_block_completes rt (payload_prefix rt (normalize_id rt (ev_id a))) (h_hints h)
            (snd (payload_block rt a (normalize_id rt (ev_id a)) h s)) \<longrightarrow>
          (\<exists>mid r s3.
             rewrite_type rt (recursion_limit rt) return_type
                 (snd (payload_block rt a (normalize_id rt (ev_id a)) h s)) = (Inr r, s3) \<and>
             map_of (comp_schemas (doc_components d'))
                 (payload_prefix rt (normalize_id rt (ev_id a)) @ ''Ack'')
               = Some (SchemaOf
                   (''/components/schemas/'' @
                      payload_prefix rt (normalize_id rt (ev_id a)) @ ''Ack'')
                   (Model mid (payload_prefix rt (normalize_id rt (ev_id a)) @ ''Ack'')
                      [(''success'', Leaf ''bool''),
                       (''error'', Generic TypingAlias OUnion [Leaf ''Any'', none_type]),
                       (''data'', r)])) \<and>
             (\<exists>m. map_of (messages_of d' (sanitize_id (ev_channel a)))
                      (normalize_id rt (ev_id a) @ ''Ack'') = Some m \<and>
                  msg_title m = payload_prefix rt (normalize_id rt (ev_id a)) @ ''Ack'') \<and>
             (\<exists>op. map_of (operations d')
                       (sanitize_id (ev_channel a) @ ''/'' @ normalize_id rt (ev_id a)) = Some op \<and>
                   op_reply op =
                     Some \<lparr>reply_channel = make_ref (''/channels/'' @ sanitize_id (ev_channel a)),
                           reply_messages =
                             [make_ref (''/channels/'' @ sanitize_id (ev_channel a) @
                                        ''/messages/'' @ normalize_id rt (ev_id a) @ ''Ack'')]\<rparr>))) \<and>
         (\<not> ack_block_completes rt (payload_prefix rt (normalize_id rt (ev_id a))) (h_hints h)
              (snd (payload_block rt a (normalize_id rt (ev_id a)) h s)) \<longrightarrow>
          (\<exists>op. map_of (operations d')
                    (sanitize_id (ev_channel a) @ ''/'' @ normalize_id rt (ev_id a)) = Some op \<and>
                op_reply op = None))"
proof -
  let ?ch = "sanitize_id (ev_channel a)"
  let ?id = "normalize_id rt (ev_id a)"
  let ?P = "payload_prefix rt ?id"
  let ?s2 = "snd (payload_block rt a ?id h s)"
  from ret obtain c where c: "map_of (channels d) ?ch = Some c"
    by (auto simp: add_event_def Let_def split: option.splits)
  let ?d1 = "if \<not> truthy (ch_messages c) then set_messages ?ch [] d else d"
  from c have "\<exists>c1. map_of (channels ?d1) ?ch = Some c1"
    by (simp add: channel_set_messages)
  then obtain c1 where c1: "map_of (channels ?d1) ?ch = Some c1" ..
  from ret c h obtain i s1 where insp: "inspect_handler rt a ?id h s = (Inr i, s1)"
    and fin: "finish_event rt a ?ch ?id i ?d1 s1 = Returns (d', s')"
    by (auto simp: add_event_def introspect_def Let_def
             split: option.splits if_splits prod.splits sum.splits)
  obtain x s2 where pb: "payload_block rt a ?id h s = (x, s2)"
    by (cases "payload_block rt a ?id h s")
  with insp obtain pm where x: "x = Inr pm"
    by (cases x) (simp_all add: inspect_handler_def Let_def)
  from pb have s2: "?s2 = s2" by simp
  obtain am t s3 where sa: "synth_ack rt ?P (h_hints h) None s2 = (am, t, s3)"
    by (cases "synth_ack rt ?P (h_hints h) None s2")
  from insp pb x sa noack have ia: "in_ack_data_model i = am" and it: "in_ack_title i = t"
    by (auto simp: inspect_handler_def Let_def)
  show ?thesis
  proof (intro conjI impI)
    assume "ack_block_completes rt ?P (h_hints h) ?s2"
    then have "ack_block_completes rt ?P (h_hints h) s2" using s2 by simp
    from synth_ack_cases(1)[OF rtn nn this] sa obtain mid r s3'
      where r: "rewrite_type rt (recursion_limit rt) return_type s2 = (Inr r, s3')"
        and am: "am = Some (ModelClass (Model mid (?P @ ''Ack'') (ack_fields r)))"
        and t: "t = Some (?P @ ''Ack'')"
      by auto
    have cn: "class_name rt (Model mid (?P @ ''Ack'') (ack_fields r)) = Some (?P @ ''Ack'')" by simp
    from finish_event_with_ack[OF fin c1 ia[unfolded am] cn it[unfolded t]] r
    show "\<exists>mid r s3.
             rewrite_type rt (recursion_limit rt) return_type ?s2 = (Inr r, s3) \<and>
             map_of (comp_schemas (doc_components d')) (?P @ ''Ack'')
               = Some (SchemaOf (''/components/schemas/'' @ ?P @ ''Ack'')
                   (Model mid (?P @ ''Ack'')
                      [(''success'', Leaf ''bool''),
                       (''error'', Generic TypingAlias OUnion [Leaf ''Any'', none_type]),
                       (''data'', r)])) \<and>
             (\<exists>m. map_of (messages_of d' ?ch) (?id @ ''Ack'') = Some m \<and>
                  msg_title m = ?P @ ''Ack'') \<and>
             (\<exists>op. map_of (operations d') (?ch @ ''/'' @ ?id) = Some op \<and>
                   op_reply op =
                     Some \<lparr>reply_channel = make_ref (''/channels/'' @ ?ch),
                           reply_messages =
                             [make_ref (''/channels/'' @ ?ch @
                                        ''/messages/'' @ ?id @ ''Ack'')]\<rparr>)"
      unfolding ack_fields_def s2 by blast
  next
    assume "\<not> ack_block_completes rt ?P (h_hints h) ?s2"
    then have "\<not> ack_block_completes rt ?P (h_hints h) s2" using s2 by simp
    from synth_ack_cases(2)[OF rtn nn this] sa have "am = None" by auto
    with ia have "in_ack_data_model i = None" by simp
    from finish_event_without_ack[OF fin this]
    show "\<exists>op. map_of (operations d') (?ch @ ''/'' @ ?id) = Some op \<and> op_reply op = None" .
  qed
qed

theorem add_event_synthesizes_ack_witness:
  "\<exists>mid r.
     map_of (comp_schemas (doc_components
          (fst (after (add_event demo_runtime (on_message_args (Some text_to_bool))
                         (chat_doc, empty_caches))))))
        ''MessageAck''
       = Some (SchemaOf ''/components/schemas/MessageAck''
                 (Model mid ''MessageAck''
                    [(''success'', Leaf ''bool''),
                     (''error'', Generic TypingAlias OUnion [Leaf ''Any'', none_type]),
                     (''data'', r)])) \<and>
     (\<exists>m. map_of (messages_of
               (fst (after (add_event demo_runtime (on_message_args (Some text_to_bool))
                              (chat_doc, empty_caches))))
               ''chat'') ''messageAck'' = Some m \<and>
          msg_title m = ''MessageAck'') \<and>
     (\<exists>op. map_of (operations
               (fst (after (add_event demo_runtime (on_message_args (Some text_to_bool))
                              (chat_doc, empty_caches)))))
               ''chat/message'' = Some op \<and>
          op_reply op = Some \<lparr>reply_channel = make_ref ''/channels/chat'',
                               reply_messages = [make_ref ''/channels/chat/messages/messageAck'']\<rparr>)"
proof -
  let ?a = "on_message_args (Some text_to_bool)"
  let ?r = "after (add_event demo_runtime ?a (chat_doc, empty_caches))"
  have "returned (add_event demo_runtime ?a (chat_doc, empty_caches))" by code_simp
  then have ret: "add_event demo_runtime ?a (chat_doc, empty_caches) = Returns (fst ?r, snd ?r)"
    using returned_after by fastforce
  have h: "ev_handler ?a = Some text_to_bool" by (simp add: on_message_args_def)
  have rtn: "map_of (h_hints text_to_bool) ''return'' = Some (Leaf ''bool'')"
    by (simp add: text_to_bool_def)
  have nn: "Leaf ''bool'' \<noteq> none_type" by (simp add: none_type_def)
  have noack: "ev_ack_data_model ?a = None" by (simp add: on_message_args_def)
  have I: "normalize_id demo_runtime (ev_id ?a) = ''message''" by code_simp
  have P: "payload_prefix demo_runtime ''message'' = ''Message''" by code_simp
  have C: "sanitize_id (ev_channel ?a) = ''chat''" by code_simp
  have compl: "ack_block_completes demo_runtime ''Message'' (h_hints text_to_bool)
                 (snd (payload_block demo_runtime ?a ''message'' text_to_bool empty_caches))"
    by code_simp
  from add_event_synthesizes_ack[OF ret h rtn nn noack] compl
  show ?thesis unfolding I P C by auto
qed

section \<open>Claims about reference resolution\<close>

text \<open>
  Claim C1: what the code does on a pointer through a dict key.  After
  \<^verbatim>\<open>default_init()\<close> and \<^verbatim>\<open>add_channel("chat")\<close> the path \<^verbatim>\<open>/channels/chat\<close> is
  present in the document, yet \<open>resolve_ref (make_ref path)\<close> raises AttributeError:
  \<^verbatim>\<open>self.channels\<close> is a dict and \<^verbatim>\<open>getattr\<close> does not look up keys.  The same
  happens to \<^verbatim>\<open>#/components/schemas/MessagePayload\<close> after the event of the running
  example has been added.
\<close>

theorem resolve_ref_dict_key_raises:
  "node_at (doc_node chat_doc) (segments ''/channels/chat'')
     = Some (channel_node \<lparr>ch_address = ''chat'', ch_title = ''Chat'', ch_summary = None,
               ch_description = None, ch_servers = None, ch_messages = None\<rparr>) \<and>
   resolve_ref demo_runtime (doc_node chat_doc) (ref_node (make_ref ''/channels/chat''))
     = Inl (AttributeError ''chat'') \<and>
   resolve_ref demo_runtime (doc_node (fst (after (add_event demo_runtime (on_message_args (Some text_to_bool))
                                         (chat_doc, empty_caches)))))
       (StrN ''#/components/schemas/MessagePayload'')
     = Inl (AttributeError ''MessagePayload'')"
  by code_simp

end
